theory Spec2Isabelle
  imports Complex_Main
begin

section \<open>Supply projection and alerting engine of server/storage.ts\<close>

text \<open>
  Numbers: a JavaScript Number is modelled as an exact \<open>real\<close> (integers read from the
  database as \<open>int\<close>); binary rounding of doubles is not part of the model. In particular
  the factor \<open>1.1\<close> is the fraction 11/10 here and the double nearest to it in the code, so
  a value that the model puts exactly on a rounding or flooring boundary can come out one
  step lower or higher in the code. The statements below are about formulas, order,
  thresholds and store writes, and the concrete inputs they evaluate stay off such
  boundaries.
  Time stamps are milliseconds since the epoch, as \<open>Date.getTime()\<close> gives them.
  Strings are lists of UTF-8 bytes.
\<close>

subsection \<open>Array helpers\<close>

text \<open>\<open>xs.reduce((acc, x, index) => f(acc, x, index), init)\<close>\<close>

definition reduce_idx :: "('b \<Rightarrow> 'a \<Rightarrow> nat \<Rightarrow> 'b) \<Rightarrow> 'b \<Rightarrow> 'a list \<Rightarrow> 'b" where
  "reduce_idx f init xs = foldl (\<lambda>acc (x, i). f acc x i) init (zip xs [0..<length xs])"

text \<open>\<open>xs.slice(-k)\<close>: the trailing \<open>k\<close> elements, the whole array when it is shorter.\<close>

definition slice_last :: "nat \<Rightarrow> 'a list \<Rightarrow> 'a list" where
  "slice_last k xs = drop (length xs - k) xs"

text \<open>\<open>Math.round\<close> rounds halves towards plus infinity.\<close>

definition js_round :: "real \<Rightarrow> int" where
  "js_round x = \<lfloor>x + 1 / 2\<rfloor>"

subsection \<open>Trend estimator and predictive consumption\<close>

record DataPoint =
  dp_date :: int
  dp_value :: real

definition calculateTrend :: "DataPoint list \<Rightarrow> real" where
  "calculateTrend dataPoints =
     (if length dataPoints < 2 then 0
      else
        let n = real (length dataPoints);
            sumX = reduce_idx (\<lambda>sum point index. sum + real index) 0 dataPoints;
            sumY = foldl (\<lambda>sum point. sum + dp_value point) 0 dataPoints;
            sumXY = reduce_idx (\<lambda>sum point index. sum + real index * dp_value point) 0 dataPoints;
            sumXX = reduce_idx (\<lambda>sum point index. sum + real index * real index) 0 dataPoints;
            slope = (n * sumXY - sumX * sumY) / (n * sumXX - sumX * sumX)
        in slope)"

definition calculatePredictiveConsumption :: "real list \<Rightarrow> real \<Rightarrow> real" where
  "calculatePredictiveConsumption dailyConsumptions trend =
     (if length dailyConsumptions = 0 then 0
      else
        let recentAvg = foldl (\<lambda>a b. a + b) 0 (slice_last 7 dailyConsumptions)
                          / real (min 7 (length dailyConsumptions));
            predicted = recentAvg + trend
        in max (predicted * (11 / 10)) 0)"

subsection \<open>Data model\<close>

text \<open>
  Rows as \<open>getAllPrintJobs\<close>, \<open>getAllPaperTypes\<close> and \<open>getAllTonerInventory\<close> return them,
  with the columns the engine reads. \<open>printedAt\<close> is the time value of the row's Date.
\<close>

record PrintJob =
  printedAt :: int
  pageCount :: int
  colorMode :: string
  paperTypeId :: "string option"

record PaperType =
  pt_id :: string
  pt_name :: string
  pt_stock :: int

record TonerInventory =
  tn_id :: string
  tn_name :: string
  tn_color :: string
  tn_stock :: int

text \<open>One entry of a consumption series: \<open>{ date: Date, pages: number }\<close>.\<close>

record Entry =
  date :: int
  pages :: real

datatype ResourceType = Paper | Toner

datatype Status = Critical | Warning | Caution | Normal

datatype Confidence = High | Medium | Low

record SupplyProjection =
  ptype :: ResourceType
  resId :: string
  name :: string
  color :: "string option"
  currentStock :: int
  dailyConsumption :: real
  trend :: real
  estimatedPagesPerUnit :: "int option"
  daysRemaining :: int
  estimatedDepletionDate :: int
  status :: Status
  confidence :: Confidence
  dataPoints :: nat

datatype error = RangeError | TypeError | StoreError

subsection \<open>Dates\<close>

text \<open>
  \<open>d.toISOString().split('T')[0]\<close> is the UTC calendar day of \<open>d\<close>; it is modelled by the
  number of that day since the epoch, which determines the text and is determined by it.
\<close>

definition dateKey :: "int \<Rightarrow> int" where
  "dateKey t = t div 86400000"

text \<open>
  \<open>new Date(t).toISOString()\<close> throws a RangeError when \<open>t\<close> is outside the range of
  time values, 8.64e15 milliseconds either side of the epoch.
\<close>

definition toISODate :: "int \<Rightarrow> error + int" where
  "toISODate t = (if \<bar>t\<bar> \<le> 8640000000000000 then Inr (dateKey t) else Inl RangeError)"

subsection \<open>Consumption aggregator\<close>

text \<open>
  The two objects the source uses as dictionaries are maps from the key to the series.
  A plain JavaScript object also answers to the names it inherits from
  \<open>Object.prototype\<close>: under such a name the lookup finds a function (or the prototype
  itself), never an array.
\<close>

definition inheritedNames :: "string list" where
  "inheritedNames =
     [''constructor'', ''__defineGetter__'', ''__defineSetter__'', ''hasOwnProperty'',
      ''__lookupGetter__'', ''__lookupSetter__'', ''isPrototypeOf'', ''propertyIsEnumerable'',
      ''toString'', ''valueOf'', ''__proto__'', ''toLocaleString'']"

text \<open>
  The body of the job loop for one series: find the entry of the job's day and add the
  pages to it, or push a new entry.
\<close>

fun addConsumption :: "Entry list \<Rightarrow> int \<Rightarrow> int \<Rightarrow> Entry list" where
  "addConsumption [] jobDate pc = [\<lparr>date = jobDate, pages = of_int pc\<rparr>]"
| "addConsumption (entry # rest) jobDate pc =
     (if dateKey (date entry) = dateKey jobDate
      then entry\<lparr>pages := pages entry + of_int pc\<rparr> # rest
      else entry # addConsumption rest jobDate pc)"

definition seriesOf :: "(string \<rightharpoonup> Entry list) \<Rightarrow> string \<Rightarrow> Entry list" where
  "seriesOf m k = (case m k of None \<Rightarrow> [] | Some es \<Rightarrow> es)"

text \<open>
  The job loop of the paper analysis. \<open>paperTypeId\<close> is whatever string the job was
  created with. Under an inherited name the test \<open>!paperConsumptionByType[id]\<close> is false,
  no array is stored, and the call of \<open>.find\<close> on what the lookup returns throws a
  TypeError.
\<close>

fun paperConsumptionByType ::
  "(string \<rightharpoonup> Entry list) \<Rightarrow> PrintJob list \<Rightarrow> error + (string \<rightharpoonup> Entry list)" where
  "paperConsumptionByType m [] = Inr m"
| "paperConsumptionByType m (job # jobs) =
     (case paperTypeId job of
        None \<Rightarrow> paperConsumptionByType m jobs
      | Some k \<Rightarrow>
          if k \<noteq> [] then
            if k \<in> set inheritedNames then Inl TypeError
            else paperConsumptionByType
                   (m(k \<mapsto> addConsumption (seriesOf m k) (printedAt job) (pageCount job)))
                   jobs
          else paperConsumptionByType m jobs)"

text \<open>
  The job loop of the toner analysis: its only key is the word \<open>color\<close>.
\<close>

fun tonerConsumptionByColor ::
  "(string \<rightharpoonup> Entry list) \<Rightarrow> PrintJob list \<Rightarrow> (string \<rightharpoonup> Entry list)" where
  "tonerConsumptionByColor m [] = m"
| "tonerConsumptionByColor m (job # jobs) =
     tonerConsumptionByColor
       (if colorMode job = ''color''
        then m(colorMode job \<mapsto>
                 addConsumption (seriesOf m (colorMode job)) (printedAt job) (pageCount job))
        else m)
       jobs"

subsection \<open>Depletion forecaster\<close>

text \<open>
  Two computations are written out twice in the source, word for word, once for paper and
  once for toner; each is one definition here. The first is the \<open>status:\<close> expression,
  the second the three lines that compute \<open>mean\<close>, \<open>variance\<close> and \<open>confidence\<close>.
\<close>

definition statusOf :: "int \<Rightarrow> Status" where
  "statusOf days =
     (if days \<le> 3 then Critical
      else if days \<le> 7 then Warning
      else if days \<le> 14 then Caution else Normal)"

definition confidenceOf :: "real list \<Rightarrow> Confidence" where
  "confidenceOf dailyConsumptions =
     (let mean = foldl (\<lambda>a b. a + b) 0 dailyConsumptions / real (length dailyConsumptions);
          variance = foldl (\<lambda>sum v. sum + (v - mean)\<^sup>2) 0 dailyConsumptions
                       / real (length dailyConsumptions)
      in if variance < mean * (1 / 2) then High
         else if variance < mean * 1 then Medium else Low)"

text \<open>
  The body of the loop over the paper types. The result is the list of projections the
  iteration pushes (none or one), or the exception it throws. The id of a paper type is
  the UUID the database generates (the insert schema leaves \<open>id\<close> out), so this lookup
  never meets an inherited name.
\<close>

definition paperStep ::
  "int \<Rightarrow> (string \<rightharpoonup> Entry list) \<Rightarrow> PaperType \<Rightarrow> error + SupplyProjection list" where
  "paperStep now paperConsumption paperType =
     (case paperConsumption (pt_id paperType) of
        None \<Rightarrow> Inr []
      | Some unsorted \<Rightarrow>
          if length unsorted > 0 then
            let consumptionData = sort_key date unsorted;
                dailyConsumptions = map pages consumptionData;
                trend = calculateTrend
                          (map (\<lambda>d. \<lparr>dp_date = date d, dp_value = pages d\<rparr>) consumptionData);
                predictedDailyConsumption = calculatePredictiveConsumption dailyConsumptions trend
            in if predictedDailyConsumption > 0 then
                 let daysRemaining = \<lfloor>of_int (pt_stock paperType) / predictedDailyConsumption\<rfloor>;
                     confidence = confidenceOf dailyConsumptions
                 in case toISODate (now + daysRemaining * 24 * 60 * 60 * 1000) of
                      Inl e \<Rightarrow> Inl e
                    | Inr depletion \<Rightarrow>
                        Inr [\<lparr>ptype = Paper,
                              resId = pt_id paperType,
                              name = pt_name paperType,
                              color = None,
                              currentStock = pt_stock paperType,
                              dailyConsumption =
                                of_int (js_round (predictedDailyConsumption * 100)) / 100,
                              trend = of_int (js_round (trend * 100)) / 100,
                              estimatedPagesPerUnit = None,
                              daysRemaining = daysRemaining,
                              estimatedDepletionDate = depletion,
                              status = statusOf daysRemaining,
                              confidence = confidence,
                              dataPoints = length consumptionData\<rparr>]
               else Inr []
          else Inr [])"

text \<open>The body of the loop over the toner inventory.\<close>

definition tonerStep ::
  "int \<Rightarrow> (string \<rightharpoonup> Entry list) \<Rightarrow> TonerInventory \<Rightarrow> error + SupplyProjection list" where
  "tonerStep now tonerConsumption toner =
     (let estimatedPagesPerCartridge =
            (if tn_color toner = ''black'' then 2500
             else if tn_color toner = ''tricolor'' then 1500 else (1200::int));
          unsorted = seriesOf tonerConsumption ''color''
      in if length unsorted > 0 then
           let consumptionData = sort_key date unsorted;
               dailyConsumptions = map pages consumptionData;
               trend = calculateTrend
                         (map (\<lambda>d. \<lparr>dp_date = date d, dp_value = pages d\<rparr>) consumptionData);
               predictedDailyConsumption = calculatePredictiveConsumption dailyConsumptions trend
           in if predictedDailyConsumption > 0 then
                let pagesRemaining = tn_stock toner * estimatedPagesPerCartridge;
                    daysRemaining = \<lfloor>of_int pagesRemaining / predictedDailyConsumption\<rfloor>;
                    confidence = confidenceOf dailyConsumptions
                in case toISODate (now + daysRemaining * 24 * 60 * 60 * 1000) of
                     Inl e \<Rightarrow> Inl e
                   | Inr depletion \<Rightarrow>
                       Inr [\<lparr>ptype = Toner,
                             resId = tn_id toner,
                             name = tn_name toner,
                             color = Some (tn_color toner),
                             currentStock = tn_stock toner,
                             dailyConsumption =
                               of_int (js_round (predictedDailyConsumption * 100)) / 100,
                             trend = of_int (js_round (trend * 100)) / 100,
                             estimatedPagesPerUnit = Some estimatedPagesPerCartridge,
                             daysRemaining = daysRemaining,
                             estimatedDepletionDate = depletion,
                             status = statusOf daysRemaining,
                             confidence = confidence,
                             dataPoints = length consumptionData\<rparr>]
              else Inr []
         else Inr [])"

text \<open>
  A \<open>for ... of\<close> loop whose body pushes onto \<open>projections\<close>: the pushes of all
  iterations in order, or the first exception.
\<close>

fun pushAll :: "('a \<Rightarrow> error + 'b list) \<Rightarrow> 'a list \<Rightarrow> error + 'b list" where
  "pushAll body [] = Inr []"
| "pushAll body (x # xs) =
     (case body x of
        Inl e \<Rightarrow> Inl e
      | Inr ps \<Rightarrow> (case pushAll body xs of Inl e \<Rightarrow> Inl e | Inr qs \<Rightarrow> Inr (ps @ qs)))"

text \<open>
  What the database reads return for a \<open>companyId\<close> argument, and the ids of
  \<open>getAllCompanies\<close>. A read that throws is not modelled.
\<close>

record Database =
  getAllPrintJobs :: "string option \<Rightarrow> PrintJob list"
  getAllPaperTypes :: "string option \<Rightarrow> PaperType list"
  getAllTonerInventory :: "string option \<Rightarrow> TonerInventory list"
  getAllCompanies :: "string list"

text \<open>
  The \<open>try\<close> block of \<open>getSupplyProjections\<close> up to the final sort. \<open>now\<close> is
  \<open>Date.now()\<close> and \<open>ninetyDaysAgo\<close> the time value of the cut-off the code
  computes from the local calendar.
\<close>

definition projectionsTry ::
  "Database \<Rightarrow> int \<Rightarrow> int \<Rightarrow> string option \<Rightarrow> error + SupplyProjection list" where
  "projectionsTry db now ninetyDaysAgo companyId =
     (let allJobs = getAllPrintJobs db companyId;
          recentJobs = filter (\<lambda>job. printedAt job \<ge> ninetyDaysAgo) allJobs
      in case paperConsumptionByType Map.empty recentJobs of
           Inl e \<Rightarrow> Inl e
         | Inr paperConsumption \<Rightarrow>
             let paperTypes = getAllPaperTypes db companyId
             in case pushAll (paperStep now paperConsumption) paperTypes of
                  Inl e \<Rightarrow> Inl e
                | Inr paperProjections \<Rightarrow>
                    let tonerInventory = getAllTonerInventory db companyId;
                        tonerConsumption = tonerConsumptionByColor Map.empty recentJobs
                    in case pushAll (tonerStep now tonerConsumption) tonerInventory of
                         Inl e \<Rightarrow> Inl e
                       | Inr tonerProjections \<Rightarrow> Inr (paperProjections @ tonerProjections))"

text \<open>The \<open>catch\<close> returns the empty list; otherwise the projections are sorted (stably).\<close>

definition getSupplyProjections ::
  "Database \<Rightarrow> int \<Rightarrow> int \<Rightarrow> string option \<Rightarrow> SupplyProjection list" where
  "getSupplyProjections db now ninetyDaysAgo companyId =
     (case projectionsTry db now ninetyDaysAgo companyId of
        Inl e \<Rightarrow> []
      | Inr projections \<Rightarrow> sort_key daysRemaining projections)"

subsection \<open>Text\<close>

text \<open>
  The accented letters of the message templates, in UTF-8, and the double quote.
\<close>

definition a_acute :: string where "a_acute = [CHR 0xC3, CHR 0xA1]"
definition i_acute :: string where "i_acute = [CHR 0xC3, CHR 0xAD]"
definition o_acute :: string where "o_acute = [CHR 0xC3, CHR 0xB3]"
definition inv_excl :: string where "inv_excl = [CHR 0xC2, CHR 0xA1]"
definition dquote :: string where "dquote = [CHR 0x22]"

text \<open>
  Template substitution of an integer: its decimal digits, with a minus sign when it is
  negative (the integers here stay far below the 1e21 from which JavaScript switches to
  exponent notation).
\<close>

fun showNat :: "nat \<Rightarrow> string" where
  "showNat n = (if n < 10 then [''0123456789'' ! n]
                else showNat (n div 10) @ [''0123456789'' ! (n mod 10)])"

declare showNat.simps [simp del]

definition showInt :: "int \<Rightarrow> string" where
  "showInt i = (if i < 0 then ''-'' @ showNat (nat (- i)) else showNat (nat i))"

text \<open>
  Template substitution of \<open>dailyConsumption\<close>, a non-negative number of at most two
  decimals: the integer part, then the decimals without trailing zeros.
\<close>

definition showNumber :: "real \<Rightarrow> string" where
  "showNumber x =
     (let k = nat \<lfloor>x * 100\<rfloor>
      in showNat (k div 100) @
         (if k mod 100 = 0 then []
          else ''.'' @ [''0123456789'' ! ((k mod 100) div 10)] @
               (if k mod 10 = 0 then [] else [''0123456789'' ! (k mod 10)])))"

subsection \<open>The day count of a message\<close>

definition isDigit :: "char \<Rightarrow> bool" where
  "isDigit c = (c \<in> set ''0123456789'')"

text \<open>
  The regular expression of the dedup branch (one or more digits, a space, the Spanish
  word for day) tried at the start of \<open>s\<close>: a non-empty run of digits followed by the
  space and the word. The run is the longest one: a shorter run would have to be
  followed by a space where a digit stands.
\<close>

definition matchAt :: "string \<Rightarrow> string option" where
  "matchAt s =
     (let ds = takeWhile isDigit s; rest = dropWhile isDigit s
      in if ds \<noteq> [] \<and> take 5 rest = '' d'' @ i_acute @ ''a'' then Some ds else None)"

text \<open>\<open>message.match(...)?.[1]\<close>: the group of the leftmost match, if there is one.\<close>

fun matchDays :: "string \<Rightarrow> string option" where
  "matchDays [] = None"
| "matchDays (c # cs) =
     (case matchAt (c # cs) of Some ds \<Rightarrow> Some ds | None \<Rightarrow> matchDays cs)"

text \<open>The value of a decimal digit: its place in the row of the ten digits.\<close>

definition digitVal :: "char \<Rightarrow> int" where
  "digitVal c = int (length (takeWhile (\<lambda>d. d \<noteq> c) ''0123456789''))"

text \<open>\<open>parseInt\<close> on a string of decimal digits.\<close>

definition parseInt :: "string \<Rightarrow> int" where
  "parseInt ds = foldl (\<lambda>n c. 10 * n + digitVal c) 0 ds"

text \<open>\<open>parseInt(message.match(...)?.[1] || "0")\<close>\<close>

definition parsedDays :: "string \<Rightarrow> int" where
  "parsedDays message = parseInt (case matchDays message of Some ds \<Rightarrow> ds | None \<Rightarrow> ''0'')"

subsection \<open>Alert store\<close>

text \<open>
  The argument of \<open>createAlert\<close> and a row of the \<open>alerts\<close> table. The row's id, a random
  UUID in the database, is a counter here; \<open>createdAt\<close> is never read and left out.
\<close>

record InsertAlert =
  companyId :: string
  alertType :: string
  title :: string
  message :: string
  severity :: string
  resourceId :: "string option"
  resourceType :: "string option"

record Alert = InsertAlert +
  alertId :: nat
  read :: bool

record Store =
  alerts :: "Alert list"
  nextId :: nat

text \<open>Which writes the database rejects; a rejected write throws.\<close>

record Faults =
  createFails :: "InsertAlert \<Rightarrow> bool"
  markFails :: "nat \<Rightarrow> bool"

definition noFaults :: Faults where
  "noFaults = \<lparr>createFails = (\<lambda>a. False), markFails = (\<lambda>i. False)\<rparr>"

text \<open>
  A computation on the store ends with the store it leaves, or throws and leaves the
  store it had reached. \<open>getAllAlerts\<close> returns the rows of the company in the order of
  the table; its own \<open>catch\<close>, for a read that throws, is not modelled.
\<close>

type_synonym outcome = "(error \<times> Store) + Store"

definition getAllAlerts :: "Store \<Rightarrow> string \<Rightarrow> Alert list" where
  "getAllAlerts st compId = filter (\<lambda>a. companyId a = compId) (alerts st)"

definition createAlert :: "Faults \<Rightarrow> Store \<Rightarrow> InsertAlert \<Rightarrow> outcome" where
  "createAlert f st alert =
     (if createFails f alert then Inl (StoreError, st)
      else Inr (st\<lparr>alerts := alerts st @
                   [\<lparr>companyId = companyId alert, alertType = alertType alert,
                     title = title alert, message = message alert, severity = severity alert,
                     resourceId = resourceId alert, resourceType = resourceType alert,
                     alertId = nextId st, read = False\<rparr>],
                 nextId := Suc (nextId st)\<rparr>))"

definition markAlertRead :: "Faults \<Rightarrow> Store \<Rightarrow> nat \<Rightarrow> outcome" where
  "markAlertRead f st i =
     (if markFails f i then Inl (StoreError, st)
      else Inr (st\<lparr>alerts := map (\<lambda>a. if alertId a = i then a\<lparr>read := True\<rparr> else a)
                                 (alerts st)\<rparr>))"

subsection \<open>Alert policy engine\<close>

definition typeName :: "ResourceType \<Rightarrow> string" where
  "typeName t = (case t of Paper \<Rightarrow> ''paper'' | Toner \<Rightarrow> ''toner'')"

text \<open>
  The chain of \<open>if\<close>s that sets \<open>alertType\<close>, \<open>title\<close>, \<open>message\<close> and \<open>severity\<close>; the
  type stays empty when no branch is taken.
\<close>

definition statusAlert :: "SupplyProjection \<Rightarrow> string \<times> string \<times> string \<times> string" where
  "statusAlert projection =
     (let paper = (ptype projection = Paper);
          days = showInt (daysRemaining projection);
          stock = showInt (currentStock projection);
          quoted = dquote @ name projection @ dquote
      in
      if daysRemaining projection \<le> 0 then
        (if paper then ''paper_depleted'' else ''toner_depleted'',
         (if paper then ''Papel'' else ''T'' @ o_acute @ ''ner'') @ '' agotado'',
         ''El '' @ (if paper then ''tipo de papel'' else ''cartucho de t'' @ o_acute @ ''ner'')
           @ '' '' @ quoted @ '' se ha agotado. Stock actual: '' @ stock,
         ''error'')
      else if daysRemaining projection \<le> 3 then
        (if paper then ''paper_critical'' else ''toner_critical'',
         inv_excl @ (if paper then ''Papel'' else ''T'' @ o_acute @ ''ner'')
           @ '' cr'' @ i_acute @ ''tico!'',
         (if paper then ''Tipo de papel'' else ''Cartucho de t'' @ o_acute @ ''ner'')
           @ '' '' @ quoted @ '' se agotar'' @ a_acute @ '' en '' @ days
           @ '' d'' @ i_acute @ ''a(s). Stock actual: '' @ stock
           @ ''. Consumo diario: '' @ showNumber (dailyConsumption projection),
         ''error'')
      else if daysRemaining projection \<le> 7 then
        (if paper then ''paper_warning'' else ''toner_warning'',
         (if paper then ''Papel'' else ''T'' @ o_acute @ ''ner'') @ '' bajo'',
         (if paper then ''Tipo de papel'' else ''Cartucho de t'' @ o_acute @ ''ner'')
           @ '' '' @ quoted @ '' se agotar'' @ a_acute @ '' en '' @ days
           @ '' d'' @ i_acute @ ''a(s). Stock actual: '' @ stock,
         ''warning'')
      else if daysRemaining projection \<le> 14 then
        (if paper then ''paper_caution'' else ''toner_caution'',
         (if paper then ''Papel'' else ''T'' @ o_acute @ ''ner'')
           @ '' pr'' @ o_acute @ ''ximo a agotarse'',
         (if paper then ''Tipo de papel'' else ''Cartucho de t'' @ o_acute @ ''ner'')
           @ '' '' @ quoted @ '' se agotar'' @ a_acute @ '' en '' @ days
           @ '' d'' @ i_acute @ ''a(s). Considere reabastecer.'',
         ''warning'')
      else ([], [], [], ''info''))"

text \<open>The predicate of the first \<open>find\<close>: an unread alert of the same type and resource.\<close>

definition similarTo :: "string \<Rightarrow> SupplyProjection \<Rightarrow> Alert \<Rightarrow> bool" where
  "similarTo ty projection alert =
     (alertType alert = ty \<and> resourceId alert = Some (resId projection)
      \<and> resourceType alert = Some (typeName (ptype projection)) \<and> \<not> read alert)"

text \<open>The body of the first loop over the projections of a company.\<close>

definition statusAlertStep :: "Faults \<Rightarrow> string \<Rightarrow> Store \<Rightarrow> SupplyProjection \<Rightarrow> outcome" where
  "statusAlertStep f compId st projection =
     (case statusAlert projection of
        (ty, ttl, msg, sev) \<Rightarrow>
          if ty \<noteq> [] then
            let existingAlerts = getAllAlerts st compId;
                similarAlert = find (similarTo ty projection) existingAlerts;
                new = \<lparr>companyId = compId, alertType = ty, title = ttl, message = msg,
                       severity = sev, resourceId = Some (resId projection),
                       resourceType = Some (typeName (ptype projection))\<rparr>
            in case similarAlert of
                 None \<Rightarrow> createAlert f st new
               | Some similar \<Rightarrow>
                   let daysDiff = \<bar>daysRemaining projection - parsedDays (message similar)\<bar>
                   in if daysDiff \<ge> 2 then
                        (case markAlertRead f st (alertId similar) of
                           Inl err \<Rightarrow> Inl err
                         | Inr st' \<Rightarrow> createAlert f st' new)
                      else Inr st
          else Inr st)"

text \<open>The predicate of the second \<open>find\<close>, and the body of the second loop.\<close>

definition unreliableFor :: "SupplyProjection \<Rightarrow> Alert \<Rightarrow> bool" where
  "unreliableFor projection alert =
     (alertType alert = ''projection_unreliable''
      \<and> resourceId alert = Some (resId projection) \<and> \<not> read alert)"

definition unreliableAlert :: "string \<Rightarrow> SupplyProjection \<Rightarrow> InsertAlert" where
  "unreliableAlert compId projection =
     \<lparr>companyId = compId,
      alertType = ''projection_unreliable'',
      title = ''Proyecci'' @ o_acute @ ''n poco confiable: '' @ name projection,
      message = ''La proyecci'' @ o_acute @ ''n de agotamiento para '' @ dquote
                  @ name projection @ dquote
                  @ '' tiene baja confiabilidad debido a datos insuficientes o variabilidad alta.''
                  @ '' Considere revisar el inventario manualmente.'',
      severity = ''info'',
      resourceId = Some (resId projection),
      resourceType = Some (typeName (ptype projection))\<rparr>"

definition unreliableStep :: "Faults \<Rightarrow> string \<Rightarrow> Store \<Rightarrow> SupplyProjection \<Rightarrow> outcome" where
  "unreliableStep f compId st projection =
     (let existingAlerts = getAllAlerts st compId;
          similarAlert = find (unreliableFor projection) existingAlerts
      in case similarAlert of
           None \<Rightarrow> createAlert f st (unreliableAlert compId projection)
         | Some similar \<Rightarrow> Inr st)"

text \<open>A \<open>for ... of\<close> loop over store computations: it stops at the first throw.\<close>

fun forEach :: "(Store \<Rightarrow> 'a \<Rightarrow> outcome) \<Rightarrow> Store \<Rightarrow> 'a list \<Rightarrow> outcome" where
  "forEach body st [] = Inr st"
| "forEach body st (x # xs) =
     (case body st x of Inl err \<Rightarrow> Inl err | Inr st' \<Rightarrow> forEach body st' xs)"

text \<open>A \<open>companyId\<close> argument (here \<open>cid\<close>) that is given and not the empty string.\<close>

definition truthy :: "string option \<Rightarrow> bool" where
  "truthy cid = (case cid of None \<Rightarrow> False | Some c \<Rightarrow> c \<noteq> [])"

definition lowConfidenceProjections :: "SupplyProjection list \<Rightarrow> SupplyProjection list" where
  "lowConfidenceProjections companyProjections =
     filter (\<lambda>p. confidence p = Low \<and> daysRemaining p \<le> 30) companyProjections"

text \<open>The body of the loop over \<open>companiesToCheck\<close>.\<close>

definition companyStep ::
  "Faults \<Rightarrow> Database \<Rightarrow> int \<Rightarrow> int \<Rightarrow> string option \<Rightarrow> SupplyProjection list
     \<Rightarrow> Store \<Rightarrow> string \<Rightarrow> outcome" where
  "companyStep f db now ninetyDaysAgo cid projections st compId =
     (let companyProjections =
            (if truthy cid then projections
             else getSupplyProjections db now ninetyDaysAgo (Some compId))
      in case forEach (statusAlertStep f compId) st companyProjections of
           Inl err \<Rightarrow> Inl err
         | Inr st' \<Rightarrow>
             forEach (unreliableStep f compId) st' (lowConfidenceProjections companyProjections))"

text \<open>
  \<open>generateSupplyAlerts\<close>: the store it leaves and what its \<open>catch\<close> logs. It never throws.
\<close>

definition generateSupplyAlerts ::
  "Faults \<Rightarrow> Database \<Rightarrow> int \<Rightarrow> int \<Rightarrow> string option \<Rightarrow> Store \<Rightarrow> Store \<times> error list" where
  "generateSupplyAlerts f db now ninetyDaysAgo cid st =
     (let projections = getSupplyProjections db now ninetyDaysAgo cid;
          companiesToCheck =
            (if truthy cid then [the cid] else [])
            @ (if \<not> truthy cid then getAllCompanies db else [])
      in case forEach (companyStep f db now ninetyDaysAgo cid projections) st
                companiesToCheck of
           Inl (err, st') \<Rightarrow> (st', [err])
         | Inr st' \<Rightarrow> (st', []))"

definition emptyStore :: Store where
  "emptyStore = \<lparr>alerts = [], nextId = 0\<rparr>"

text \<open>The argument the first loop passes to \<open>createAlert\<close>.\<close>

definition newStatusAlert :: "string \<Rightarrow> SupplyProjection \<Rightarrow> InsertAlert" where
  "newStatusAlert compId projection =
     (case statusAlert projection of
        (ty, ttl, msg, sev) \<Rightarrow>
          \<lparr>companyId = compId, alertType = ty, title = ttl, message = msg,
           severity = sev, resourceId = Some (resId projection),
           resourceType = Some (typeName (ptype projection))\<rparr>)"

subsection \<open>Names for the statements\<close>

text \<open>
  The series the two loops read, after the in-place sort, and the value
  \<open>predictedDailyConsumption\<close> they compute from it.
\<close>

definition toDataPoints :: "Entry list \<Rightarrow> DataPoint list" where
  "toDataPoints consumptionData = map (\<lambda>d. \<lparr>dp_date = date d, dp_value = pages d\<rparr>) consumptionData"

definition predictedOf :: "Entry list \<Rightarrow> real" where
  "predictedOf consumptionData =
     calculatePredictiveConsumption (map pages consumptionData)
       (calculateTrend (toDataPoints consumptionData))"

definition recentJobsOf :: "Database \<Rightarrow> int \<Rightarrow> string option \<Rightarrow> PrintJob list" where
  "recentJobsOf db ninetyDaysAgo cid =
     filter (\<lambda>job. printedAt job \<ge> ninetyDaysAgo) (getAllPrintJobs db cid)"

definition paperMapOf :: "Database \<Rightarrow> int \<Rightarrow> string option \<Rightarrow> (string \<rightharpoonup> Entry list)" where
  "paperMapOf db ninetyDaysAgo cid =
     (case paperConsumptionByType Map.empty (recentJobsOf db ninetyDaysAgo cid) of
        Inl e \<Rightarrow> Map.empty
      | Inr m \<Rightarrow> m)"

definition paperSeries :: "Database \<Rightarrow> int \<Rightarrow> string option \<Rightarrow> string \<Rightarrow> Entry list" where
  "paperSeries db ninetyDaysAgo cid k = sort_key date (seriesOf (paperMapOf db ninetyDaysAgo cid) k)"

definition tonerSeries :: "Database \<Rightarrow> int \<Rightarrow> string option \<Rightarrow> Entry list" where
  "tonerSeries db ninetyDaysAgo cid =
     sort_key date
       (seriesOf (tonerConsumptionByColor Map.empty (recentJobsOf db ninetyDaysAgo cid))
          ''color'')"

text \<open>The database without the jobs that are not colour jobs.\<close>

definition colorJobsOnly :: "Database \<Rightarrow> Database" where
  "colorJobsOnly db =
     db\<lparr>getAllPrintJobs :=
          \<lambda>c. filter (\<lambda>job. colorMode job = ''color'') (getAllPrintJobs db c)\<rparr>"

text \<open>
  The specification's words: the mean of the trailing \<open>min(7, n)\<close> daily totals, and
  \<open>max((recentAvg + trend) * 1.1, 0)\<close>.
\<close>

definition spec_recentAvg :: "real list \<Rightarrow> real" where
  "spec_recentAvg ys =
     (\<Sum>i = length ys - min 7 (length ys)..<length ys. ys ! i) / real (min 7 (length ys))"

definition spec_predictedDaily :: "real list \<Rightarrow> real \<Rightarrow> real" where
  "spec_predictedDaily ys slope = max ((spec_recentAvg ys + slope) * (11 / 10)) 0"

subsection \<open>Example data\<close>

text \<open>
  A database of one company on one day: a colour job of 1000 pages, one job of 1000 pages on
  each of six paper types, a job of no pages on a seventh, and a job older than the
  cut-off. The stocks put the days remaining on the six threshold values.
\<close>

definition ex_now :: int where "ex_now = 1760000000000"
definition ex_cutoff :: int where "ex_cutoff = 1752224000000"

definition ex_jobs :: "PrintJob list" where
  "ex_jobs =
     [\<lparr>printedAt = 1759000000000, pageCount = 1000, colorMode = ''color'', paperTypeId = None\<rparr>,
      \<lparr>printedAt = 1759000000000, pageCount = 1000, colorMode = ''bw'', paperTypeId = Some ''p3''\<rparr>,
      \<lparr>printedAt = 1759000000000, pageCount = 1000, colorMode = ''bw'', paperTypeId = Some ''p4''\<rparr>,
      \<lparr>printedAt = 1759000000000, pageCount = 1000, colorMode = ''bw'', paperTypeId = Some ''p7''\<rparr>,
      \<lparr>printedAt = 1759000000000, pageCount = 1000, colorMode = ''bw'', paperTypeId = Some ''p8''\<rparr>,
      \<lparr>printedAt = 1759000000000, pageCount = 1000, colorMode = ''bw'', paperTypeId = Some ''p14''\<rparr>,
      \<lparr>printedAt = 1759000000000, pageCount = 1000, colorMode = ''bw'', paperTypeId = Some ''p15''\<rparr>,
      \<lparr>printedAt = 1759000000000, pageCount = 0, colorMode = ''bw'', paperTypeId = Some ''pz''\<rparr>,
      \<lparr>printedAt = 1700000000000, pageCount = 77, colorMode = ''color'', paperTypeId = Some ''p3''\<rparr>]"

definition ex_papers :: "PaperType list" where
  "ex_papers =
     [\<lparr>pt_id = ''p15'', pt_name = ''A'', pt_stock = 17000\<rparr>,
      \<lparr>pt_id = ''p14'', pt_name = ''B'', pt_stock = 16000\<rparr>,
      \<lparr>pt_id = ''p8'', pt_name = ''C'', pt_stock = 9000\<rparr>,
      \<lparr>pt_id = ''p7'', pt_name = ''D'', pt_stock = 8000\<rparr>,
      \<lparr>pt_id = ''p4'', pt_name = ''E'', pt_stock = 5000\<rparr>,
      \<lparr>pt_id = ''p3'', pt_name = ''F'', pt_stock = 4000\<rparr>,
      \<lparr>pt_id = ''pz'', pt_name = ''Z'', pt_stock = 500\<rparr>,
      \<lparr>pt_id = ''p0'', pt_name = ''G'', pt_stock = 10\<rparr>]"

definition ex_toners :: "TonerInventory list" where
  "ex_toners =
     [\<lparr>tn_id = ''t15'', tn_name = ''K'', tn_color = ''black'', tn_stock = 7\<rparr>,
      \<lparr>tn_id = ''t14'', tn_name = ''C'', tn_color = ''cyan'', tn_stock = 13\<rparr>,
      \<lparr>tn_id = ''t8'', tn_name = ''T'', tn_color = ''tricolor'', tn_stock = 6\<rparr>,
      \<lparr>tn_id = ''t7'', tn_name = ''M'', tn_color = ''magenta'', tn_stock = 7\<rparr>,
      \<lparr>tn_id = ''t4'', tn_name = ''Y'', tn_color = ''yellow'', tn_stock = 4\<rparr>,
      \<lparr>tn_id = ''t3'', tn_name = ''C2'', tn_color = ''cyan'', tn_stock = 3\<rparr>]"

definition ex_db :: Database where
  "ex_db = \<lparr>getAllPrintJobs = (\<lambda>c. ex_jobs), getAllPaperTypes = (\<lambda>c. ex_papers),
            getAllTonerInventory = (\<lambda>c. ex_toners), getAllCompanies = [''acme'']\<rparr>"

text \<open>A series map, a paper type and a cartridge for single steps of the two loops.\<close>

definition ex_series :: "string \<rightharpoonup> Entry list" where
  "ex_series = [''p1'' \<mapsto> [\<lparr>date = 1759000000000, pages = 10\<rparr>],
                ''color'' \<mapsto> [\<lparr>date = 1759000000000, pages = 100\<rparr>]]"

definition ex_paper :: PaperType where
  "ex_paper = \<lparr>pt_id = ''p1'', pt_name = ''A4'', pt_stock = 0\<rparr>"

definition ex_toner :: TonerInventory where
  "ex_toner = \<lparr>tn_id = ''t1'', tn_name = ''K'', tn_color = ''black'', tn_stock = 0\<rparr>"

text \<open>One job of one page on a paper type with a stock of two thousand million sheets.\<close>

definition huge_db :: Database where
  "huge_db =
     \<lparr>getAllPrintJobs = (\<lambda>c. [\<lparr>printedAt = 1759000000000, pageCount = 1, colorMode = ''bw'',
                                 paperTypeId = Some ''p1''\<rparr>]),
      getAllPaperTypes = (\<lambda>c. [\<lparr>pt_id = ''p1'', pt_name = ''A4'', pt_stock = 2000000000\<rparr>]),
      getAllTonerInventory = (\<lambda>c. []),
      getAllCompanies = [''acme'']\<rparr>"

text \<open>
  A paper type with 100 sheets and a job of 10 pages, and a second job whose
  \<open>paperTypeId\<close> is a name every object inherits.
\<close>

definition proto_job :: PrintJob where
  "proto_job = \<lparr>printedAt = 1759000000000, pageCount = 10, colorMode = ''bw'',
                 paperTypeId = Some ''p1''\<rparr>"

definition proto_db :: Database where
  "proto_db =
     \<lparr>getAllPrintJobs = (\<lambda>c. [proto_job,
                                \<lparr>printedAt = 1758000000000, pageCount = 1, colorMode = ''bw'',
                                 paperTypeId = Some ''constructor''\<rparr>]),
      getAllPaperTypes = (\<lambda>c. [\<lparr>pt_id = ''p1'', pt_name = ''A4'', pt_stock = 100\<rparr>]),
      getAllTonerInventory = (\<lambda>c. []),
      getAllCompanies = [''acme'']\<rparr>"

text \<open>
  A colour job of 100 pages, a cartridge of black toner, and a black-and-white job of one
  page on a paper type with a stock of two thousand million sheets.
\<close>

definition bw_db :: Database where
  "bw_db =
     \<lparr>getAllPrintJobs = (\<lambda>c. [\<lparr>printedAt = 1759000000000, pageCount = 100,
                                 colorMode = ''color'', paperTypeId = None\<rparr>,
                                \<lparr>printedAt = 1759000000000, pageCount = 1, colorMode = ''bw'',
                                 paperTypeId = Some ''p1''\<rparr>]),
      getAllPaperTypes = (\<lambda>c. [\<lparr>pt_id = ''p1'', pt_name = ''A4'', pt_stock = 2000000000\<rparr>]),
      getAllTonerInventory = (\<lambda>c. [\<lparr>tn_id = ''t1'', tn_name = ''K'', tn_color = ''black'',
                                      tn_stock = 2\<rparr>]),
      getAllCompanies = [''acme'']\<rparr>"

text \<open>
  A paper projection with a predicted consumption of 11 pages a day, by its stock and
  confidence.
\<close>

definition ex_projection :: "int \<Rightarrow> Confidence \<Rightarrow> SupplyProjection" where
  "ex_projection stock conf =
     \<lparr>ptype = Paper, resId = ''p1'', name = ''A4'', color = None, currentStock = stock,
      dailyConsumption = 11, trend = 0, estimatedPagesPerUnit = None,
      daysRemaining = stock div 11,
      estimatedDepletionDate = dateKey (ex_now + (stock div 11) * 86400000),
      status = statusOf (stock div 11), confidence = conf, dataPoints = 1\<rparr>"

text \<open>The alerts the engine creates for it at 10 days, at 0 days, and for low confidence.\<close>

definition ex_alert10 :: Alert where
  "ex_alert10 =
     \<lparr>companyId = ''acme'', alertType = ''paper_caution'',
      title = ''Papel pr'' @ o_acute @ ''ximo a agotarse'',
      message = ''Tipo de papel '' @ dquote @ ''A4'' @ dquote @ '' se agotar'' @ a_acute
                  @ '' en 10 d'' @ i_acute @ ''a(s). Considere reabastecer.'',
      severity = ''warning'', resourceId = Some ''p1'', resourceType = Some ''paper'',
      alertId = 0, read = False\<rparr>"

definition ex_alert0 :: Alert where
  "ex_alert0 =
     \<lparr>companyId = ''acme'', alertType = ''paper_depleted'',
      title = ''Papel agotado'',
      message = ''El tipo de papel '' @ dquote @ ''A4'' @ dquote
                  @ '' se ha agotado. Stock actual: 5'',
      severity = ''error'', resourceId = Some ''p1'', resourceType = Some ''paper'',
      alertId = 0, read = False\<rparr>"

definition ex_alertU :: Alert where
  "ex_alertU =
     \<lparr>companyId = ''acme'', alertType = ''projection_unreliable'',
      title = ''Proyecci'' @ o_acute @ ''n poco confiable: A4'',
      message = ''La proyecci'' @ o_acute @ ''n de agotamiento para '' @ dquote @ ''A4'' @ dquote
                  @ '' tiene baja confiabilidad debido a datos insuficientes o variabilidad alta.''
                  @ '' Considere revisar el inventario manualmente.'',
      severity = ''info'', resourceId = Some ''p1'', resourceType = Some ''paper'',
      alertId = 0, read = False\<rparr>"

definition storeOf :: "Alert \<Rightarrow> Store" where
  "storeOf a = \<lparr>alerts = [a], nextId = 1\<rparr>"

text \<open>
  Two companies, each with one paper type, 100 sheets in stock, and one job of 10 pages:
  nine days remain for both. The database rejects every alert of company \<open>a\<close>.
\<close>

definition two_db :: Database where
  "two_db =
     \<lparr>getAllPrintJobs = (\<lambda>c.
        (if c = Some ''b'' then []
         else [\<lparr>printedAt = 1759000000000, pageCount = 10, colorMode = ''bw'',
                 paperTypeId = Some ''pa''\<rparr>])
        @ (if c = Some ''a'' then []
           else [\<lparr>printedAt = 1759000000000, pageCount = 10, colorMode = ''bw'',
                   paperTypeId = Some ''pb''\<rparr>])),
      getAllPaperTypes = (\<lambda>c.
        (if c = Some ''b'' then [] else [\<lparr>pt_id = ''pa'', pt_name = ''A4'', pt_stock = 100\<rparr>])
        @ (if c = Some ''a'' then []
           else [\<lparr>pt_id = ''pb'', pt_name = ''Carta'', pt_stock = 100\<rparr>])),
      getAllTonerInventory = (\<lambda>c. []),
      getAllCompanies = [''a'', ''b'']\<rparr>"

definition rejectA :: Faults where
  "rejectA = \<lparr>createFails = (\<lambda>a. companyId a = ''a''), markFails = (\<lambda>i. False)\<rparr>"

definition three_db :: Database where
  "three_db = two_db\<lparr>getAllCompanies := [''b'', ''a'', ''c'']\<rparr>"

definition ex_alertB :: Alert where
  "ex_alertB =
     \<lparr>companyId = ''b'', alertType = ''paper_caution'',
      title = ''Papel pr'' @ o_acute @ ''ximo a agotarse'',
      message = ''Tipo de papel '' @ dquote @ ''Carta'' @ dquote @ '' se agotar'' @ a_acute
                  @ '' en 9 d'' @ i_acute @ ''a(s). Considere reabastecer.'',
      severity = ''warning'', resourceId = Some ''pb'', resourceType = Some ''paper'',
      alertId = 0, read = False\<rparr>"

subsection \<open>Helper lemmas on the reductions\<close>

lemma foldl_add_sum:
  "foldl (\<lambda>acc x. acc + g x) (a::real) xs = a + (\<Sum>i<length xs. g (xs ! i))"
proof (induction xs rule: rev_induct)
  case Nil
  then show ?case by simp
next
  case (snoc x xs)
  have "(\<Sum>i<length xs. g ((xs @ [x]) ! i)) = (\<Sum>i<length xs. g (xs ! i))"
    by (rule sum.cong) (simp_all add: nth_append)
  with snoc show ?case by simp
qed

lemma reduce_idx_sum:
  "reduce_idx (\<lambda>acc x i. acc + g x i) (a::real) xs = a + (\<Sum>i<length xs. g (xs ! i) i)"
proof (induction xs rule: rev_induct)
  case Nil
  then show ?case by (simp add: reduce_idx_def)
next
  case (snoc x xs)
  have z: "zip (xs @ [x]) [0..<length (xs @ [x])] = zip xs [0..<length xs] @ [(x, length xs)]"
    by simp
  have "(\<Sum>i<length xs. g ((xs @ [x]) ! i) i) = (\<Sum>i<length xs. g (xs ! i) i)"
    by (rule sum.cong) (simp_all add: nth_append)
  with snoc show ?case
    unfolding reduce_idx_def z by simp
qed

lemma sum_index_closed: "(\<Sum>i<n. real i) = real n * (real n - 1) / 2"
  by (induction n) (simp_all add: field_simps)

lemma sum_index_sq_closed:
  "(\<Sum>i<n. real i * real i) = (real n - 1) * real n * (2 * real n - 1) / 6"
  by (induction n) (simp_all add: field_simps)

lemma ols_denominator:
  "real n * (\<Sum>i<n. real i * real i) - (\<Sum>i<n. real i) * (\<Sum>i<n. real i)
     = (real n)\<^sup>2 * ((real n)\<^sup>2 - 1) / 12"
  unfolding sum_index_closed sum_index_sq_closed
  by (simp add: field_simps power2_eq_square)

lemma ols_denominator_pos:
  assumes "2 \<le> n"
  shows "0 < real n * (\<Sum>i<n. real i * real i) - (\<Sum>i<n. real i) * (\<Sum>i<n. real i)"
proof -
  have "1 < real n" using assms by simp
  then have "1 < (real n)\<^sup>2" by (simp add: power2_eq_square less_1_mult)
  with assms have "0 < (real n)\<^sup>2 * ((real n)\<^sup>2 - 1)"
    by (intro mult_pos_pos) simp_all
  then have "0 < (real n)\<^sup>2 * ((real n)\<^sup>2 - 1) / 12" by simp
  then show ?thesis by (simp only: ols_denominator)
qed

subsection \<open>Helper lemmas on the forecaster\<close>

lemma foldl_plus_sum: "foldl (\<lambda>a b. a + b) (0::real) xs = (\<Sum>i<length xs. xs ! i)"
  using foldl_add_sum [of "\<lambda>x. x" 0 xs] by simp

lemma slice_last_sum:
  "foldl (\<lambda>a b. a + b) (0::real) (slice_last k ys)
     = (\<Sum>i = length ys - min k (length ys)..<length ys. ys ! i)"
proof -
  let ?n = "length ys"
  let ?m = "?n - k"
  have m: "?n - min k ?n = ?m" by simp
  have "foldl (\<lambda>a b. a + b) (0::real) (slice_last k ys) = (\<Sum>i<?n - ?m. ys ! (?m + i))"
    by (simp add: foldl_plus_sum slice_last_def)
  also have "\<dots> = (\<Sum>i = ?m..<?n. ys ! i)"
    by (rule sum.reindex_bij_witness [of _ "\<lambda>i. i - ?m" "\<lambda>i. ?m + i"]) auto
  finally show ?thesis by (simp only: m)
qed

lemma predictive_is_spec:
  "ys \<noteq> [] \<Longrightarrow> calculatePredictiveConsumption ys slope = spec_predictedDaily ys slope"
  by (simp add: calculatePredictiveConsumption_def spec_predictedDaily_def spec_recentAvg_def
      slice_last_sum Let_def)

lemma paperStep_Inr:
  assumes "paperStep now m pt = Inr zs" and "p \<in> set zs"
  shows "zs = [p] \<and> ptype p = Paper \<and> resId p = pt_id pt \<and> currentStock p = pt_stock pt
         \<and> seriesOf m (pt_id pt) \<noteq> []
         \<and> 0 < predictedOf (sort_key date (seriesOf m (pt_id pt)))
         \<and> daysRemaining p
             = \<lfloor>of_int (pt_stock pt) / predictedOf (sort_key date (seriesOf m (pt_id pt)))\<rfloor>
         \<and> dailyConsumption p
             = of_int (js_round (predictedOf (sort_key date (seriesOf m (pt_id pt))) * 100)) / 100
         \<and> status p = statusOf (daysRemaining p)"
proof (cases "m (pt_id pt)")
  case None
  with assms show ?thesis by (simp add: paperStep_def)
next
  case (Some u)
  let ?pd = "predictedOf (sort_key date u)"
  let ?t = "now + \<lfloor>of_int (pt_stock pt) / ?pd\<rfloor> * 24 * 60 * 60 * 1000"
  have ne: "u \<noteq> []" and pos: "0 < ?pd"
    using assms Some
    by (auto simp: paperStep_def predictedOf_def toDataPoints_def Let_def split: if_splits)
  obtain d where d: "toISODate ?t = Inr d"
    using assms Some ne pos
    by (cases "toISODate ?t") (simp_all add: paperStep_def predictedOf_def toDataPoints_def Let_def)
  have "zs = [\<lparr>ptype = Paper, resId = pt_id pt, name = pt_name pt, color = None,
      currentStock = pt_stock pt,
      dailyConsumption = of_int (js_round (?pd * 100)) / 100,
      trend = of_int (js_round (calculateTrend (toDataPoints (sort_key date u)) * 100)) / 100,
      estimatedPagesPerUnit = None,
      daysRemaining = \<lfloor>of_int (pt_stock pt) / ?pd\<rfloor>,
      estimatedDepletionDate = d,
      status = statusOf \<lfloor>of_int (pt_stock pt) / ?pd\<rfloor>,
      confidence = confidenceOf (map pages (sort_key date u)),
      dataPoints = length u\<rparr>]"
    using assms(1) Some ne pos d
    by (simp add: paperStep_def predictedOf_def toDataPoints_def Let_def)
  with assms(2) Some ne pos show ?thesis
    by (simp add: seriesOf_def)
qed

lemma paperStep_emits:
  assumes "seriesOf m (pt_id pt) \<noteq> []"
    and "0 < predictedOf (sort_key date (seriesOf m (pt_id pt)))"
    and "paperStep now m pt = Inr zs"
  shows "\<exists>p. zs = [p]"
  using assms
  by (cases "m (pt_id pt)")
     (auto simp: paperStep_def seriesOf_def predictedOf_def toDataPoints_def Let_def
      split: sum.splits)

lemma tonerStep_Inr:
  assumes "tonerStep now m t = Inr zs" and "p \<in> set zs"
  shows "zs = [p] \<and> ptype p = Toner \<and> resId p = tn_id t \<and> currentStock p = tn_stock t
         \<and> seriesOf m ''color'' \<noteq> []
         \<and> 0 < predictedOf (sort_key date (seriesOf m ''color''))
         \<and> daysRemaining p
             = \<lfloor>of_int (tn_stock t * (if tn_color t = ''black'' then 2500
                                        else if tn_color t = ''tricolor'' then 1500 else 1200))
                  / predictedOf (sort_key date (seriesOf m ''color''))\<rfloor>
         \<and> dailyConsumption p
             = of_int (js_round (predictedOf (sort_key date (seriesOf m ''color'')) * 100)) / 100
         \<and> trend p
             = of_int (js_round (calculateTrend (toDataPoints (sort_key date (seriesOf m ''color''))) * 100)) / 100
         \<and> confidence p = confidenceOf (map pages (sort_key date (seriesOf m ''color'')))
         \<and> dataPoints p = length (seriesOf m ''color'')
         \<and> status p = statusOf (daysRemaining p)"
proof -
  let ?u = "seriesOf m ''color''"
  let ?pd = "predictedOf (sort_key date ?u)"
  let ?e = "if tn_color t = ''black'' then 2500 else if tn_color t = ''tricolor'' then 1500 else (1200::int)"
  let ?t = "now + \<lfloor>of_int (tn_stock t * ?e) / ?pd\<rfloor> * 24 * 60 * 60 * 1000"
  have ne: "?u \<noteq> []" and pos: "0 < ?pd"
    using assms
    by (auto simp: tonerStep_def predictedOf_def toDataPoints_def Let_def split: if_splits)
  obtain d where d: "toISODate ?t = Inr d"
    using assms ne pos
    by (cases "toISODate ?t") (simp_all add: tonerStep_def predictedOf_def toDataPoints_def Let_def)
  have "zs = [\<lparr>ptype = Toner, resId = tn_id t, name = tn_name t, color = Some (tn_color t),
      currentStock = tn_stock t,
      dailyConsumption = of_int (js_round (?pd * 100)) / 100,
      trend = of_int (js_round (calculateTrend (toDataPoints (sort_key date ?u)) * 100)) / 100,
      estimatedPagesPerUnit = Some ?e,
      daysRemaining = \<lfloor>of_int (tn_stock t * ?e) / ?pd\<rfloor>,
      estimatedDepletionDate = d,
      status = statusOf \<lfloor>of_int (tn_stock t * ?e) / ?pd\<rfloor>,
      confidence = confidenceOf (map pages (sort_key date ?u)),
      dataPoints = length ?u\<rparr>]"
    using assms(1) ne pos d
    by (simp add: tonerStep_def predictedOf_def toDataPoints_def Let_def)
  with assms(2) ne pos show ?thesis
    by simp
qed

lemma tonerStep_emits:
  assumes "seriesOf m ''color'' \<noteq> []"
    and "0 < predictedOf (sort_key date (seriesOf m ''color''))"
    and "tonerStep now m t = Inr zs"
  shows "\<exists>p. zs = [p]"
  using assms
  by (auto simp: tonerStep_def predictedOf_def toDataPoints_def Let_def split: sum.splits)

lemma pushAll_Inr_mem:
  assumes "pushAll body xs = Inr ys" and "y \<in> set ys"
  shows "\<exists>x\<in>set xs. \<exists>zs. body x = Inr zs \<and> y \<in> set zs"
  using assms
  by (induction xs arbitrary: ys) (auto split: sum.splits)

lemma pushAll_Inr_sub:
  assumes "pushAll body xs = Inr ys" and "x \<in> set xs"
  shows "\<exists>zs. body x = Inr zs \<and> set zs \<subseteq> set ys"
  using assms
  by (induction xs arbitrary: ys) (fastforce split: sum.splits)+

lemma projectionsTry_Inr:
  assumes "projectionsTry db now cutoff cid = Inr raw"
  shows "\<exists>ps ts. raw = ps @ ts
     \<and> pushAll (paperStep now (paperMapOf db cutoff cid)) (getAllPaperTypes db cid) = Inr ps
     \<and> pushAll (tonerStep now (tonerConsumptionByColor Map.empty (recentJobsOf db cutoff cid)))
         (getAllTonerInventory db cid) = Inr ts"
  using assms
  by (simp add: projectionsTry_def paperMapOf_def recentJobsOf_def Let_def split: sum.splits)

lemma getSupplyProjections_set:
  "set (getSupplyProjections db now cutoff cid)
     = (case projectionsTry db now cutoff cid of Inl e \<Rightarrow> {} | Inr raw \<Rightarrow> set raw)"
  by (simp add: getSupplyProjections_def split: sum.split)

lemma projection_origin:
  assumes "p \<in> set (getSupplyProjections db now cutoff cid)"
  shows "(\<exists>pt\<in>set (getAllPaperTypes db cid). \<exists>zs.
            paperStep now (paperMapOf db cutoff cid) pt = Inr zs
            \<and> p \<in> set zs)
       \<or> (\<exists>t\<in>set (getAllTonerInventory db cid). \<exists>zs.
            tonerStep now (tonerConsumptionByColor Map.empty (recentJobsOf db cutoff cid)) t = Inr zs
            \<and> p \<in> set zs)"
proof -
  from assms obtain raw where raw: "projectionsTry db now cutoff cid = Inr raw" "p \<in> set raw"
    by (auto simp: getSupplyProjections_set split: sum.splits)
  from projectionsTry_Inr [OF raw(1)] obtain ps ts where
    r: "raw = ps @ ts"
    and ps: "pushAll (paperStep now (paperMapOf db cutoff cid)) (getAllPaperTypes db cid) = Inr ps"
    and ts: "pushAll (tonerStep now (tonerConsumptionByColor Map.empty (recentJobsOf db cutoff cid)))
         (getAllTonerInventory db cid) = Inr ts"
    by blast
  from raw(2) r have "p \<in> set ps \<or> p \<in> set ts" by simp
  then show ?thesis
  proof
    assume "p \<in> set ps"
    from pushAll_Inr_mem [OF ps this] show ?thesis by blast
  next
    assume "p \<in> set ts"
    from pushAll_Inr_mem [OF ts this] show ?thesis by blast
  qed
qed

subsection \<open>Evaluation\<close>

lemmas ex_defs = ex_db_def ex_jobs_def ex_papers_def ex_toners_def ex_now_def ex_cutoff_def
lemmas eval_defs = getSupplyProjections_def projectionsTry_def inheritedNames_def paperStep_def tonerStep_def
     calculateTrend_def calculatePredictiveConsumption_def slice_last_def toISODate_def seriesOf_def
     dateKey_def js_round_def statusOf_def confidenceOf_def Let_def

lemmas series_defs = paperSeries_def paperMapOf_def inheritedNames_def tonerSeries_def recentJobsOf_def seriesOf_def dateKey_def
  spec_predictedDaily_def spec_recentAvg_def toDataPoints_def calculateTrend_def

lemmas text_defs = a_acute_def i_acute_def o_acute_def inv_excl_def dquote_def showInt_def
  showNumber_def showNat.simps
lemmas parse_defs = parsedDays_def matchAt_def isDigit_def parseInt_def digitVal_def
lemmas alert_defs = statusAlertStep_def unreliableStep_def statusAlert_def unreliableAlert_def
  newStatusAlert_def similarTo_def unreliableFor_def typeName_def getAllAlerts_def
  createAlert_def markAlertRead_def noFaults_def emptyStore_def lowConfidenceProjections_def
lemmas ex_alert_defs = ex_projection_def ex_alert10_def ex_alert0_def ex_alertU_def storeOf_def
  statusOf_def dateKey_def ex_now_def

lemmas run_defs = generateSupplyAlerts_def companyStep_def truthy_def two_db_def three_db_def
  rejectA_def ex_cutoff_def ex_alertB_def storeOf_def

subsection \<open>The trend estimator\<close>

text \<open>
  Claim C4. A series of fewer than two points has trend 0. A series of \<open>n \<ge> 2\<close> points
  has the least-squares slope of its values against the index \<open>0..n-1\<close>,
  \<open>(n * Sum(i * y i) - Sum(i) * Sum(y i)) / (n * Sum(i^2) - Sum(i)^2)\<close>, and that denominator
  is not zero.
\<close>

theorem calculateTrend_least_squares:
  "(length dps < 2 \<longrightarrow> calculateTrend dps = 0) \<and>
   (2 \<le> length dps \<longrightarrow>
      calculateTrend dps =
        (real (length dps) * (\<Sum>i<length dps. real i * dp_value (dps ! i))
           - (\<Sum>i<length dps. real i) * (\<Sum>i<length dps. dp_value (dps ! i)))
        / (real (length dps) * (\<Sum>i<length dps. (real i)\<^sup>2) - (\<Sum>i<length dps. real i)\<^sup>2)
      \<and> real (length dps) * (\<Sum>i<length dps. (real i)\<^sup>2) - (\<Sum>i<length dps. real i)\<^sup>2 \<noteq> 0)"
proof (intro conjI impI)
  assume "length dps < 2"
  then show "calculateTrend dps = 0" by (simp add: calculateTrend_def)
next
  assume n: "2 \<le> length dps"
  have sx: "reduce_idx (\<lambda>sum point index. sum + real index) 0 dps = (\<Sum>i<length dps. real i)"
    using reduce_idx_sum [of "\<lambda>x i. real i" 0 dps] by simp
  have sy: "foldl (\<lambda>sum point. sum + dp_value point) 0 dps = (\<Sum>i<length dps. dp_value (dps ! i))"
    using foldl_add_sum [of dp_value 0 dps] by simp
  have sxy: "reduce_idx (\<lambda>sum point index. sum + real index * dp_value point) 0 dps
               = (\<Sum>i<length dps. real i * dp_value (dps ! i))"
    using reduce_idx_sum [of "\<lambda>x i. real i * dp_value x" 0 dps] by simp
  have sxx: "reduce_idx (\<lambda>sum point index. sum + real index * real index) 0 dps
               = (\<Sum>i<length dps. (real i)\<^sup>2)"
    using reduce_idx_sum [of "\<lambda>x i. real i * real i" 0 dps] by (simp add: power2_eq_square)
  from n show "calculateTrend dps =
        (real (length dps) * (\<Sum>i<length dps. real i * dp_value (dps ! i))
           - (\<Sum>i<length dps. real i) * (\<Sum>i<length dps. dp_value (dps ! i)))
        / (real (length dps) * (\<Sum>i<length dps. (real i)\<^sup>2) - (\<Sum>i<length dps. real i)\<^sup>2)"
    by (simp add: calculateTrend_def Let_def sx sy sxy sxx power2_eq_square)
next
  assume n: "2 \<le> length dps"
  from ols_denominator_pos [OF n]
  show "real (length dps) * (\<Sum>i<length dps. (real i)\<^sup>2) - (\<Sum>i<length dps. real i)\<^sup>2 \<noteq> 0"
    by (simp add: power2_eq_square)
qed

theorem calculateTrend_least_squares_witness:
  "length ([]::DataPoint list) < 2 \<and> calculateTrend [] = 0
   \<and> 2 \<le> length [\<lparr>dp_date = 0, dp_value = 10\<rparr>, \<lparr>dp_date = 1, dp_value = 20\<rparr>,
                   \<lparr>dp_date = 2, dp_value = 60\<rparr>]
   \<and> calculateTrend [\<lparr>dp_date = 0, dp_value = 10\<rparr>, \<lparr>dp_date = 1, dp_value = 20\<rparr>,
                      \<lparr>dp_date = 2, dp_value = 60\<rparr>] = 25"
  using calculateTrend_least_squares [of "[]"]
    calculateTrend_least_squares [of "[\<lparr>dp_date = 0, dp_value = 10\<rparr>,
       \<lparr>dp_date = 1, dp_value = 20\<rparr>, \<lparr>dp_date = 2, dp_value = 60\<rparr>]"]
  by (simp add: numeral_3_eq_3)

subsection \<open>Ordering of the result\<close>

text \<open>
  Claim C8. Whatever the database holds, the list \<open>getSupplyProjections\<close> returns is sorted
  ascending by \<open>daysRemaining\<close>, paper and toner entries together.
\<close>

theorem projections_sorted:
  "sorted (map daysRemaining (getSupplyProjections db now cutoff cid))"
  by (simp add: getSupplyProjections_def split: sum.split)

subsection \<open>Status thresholds\<close>

text \<open>
  Claim C3. In every projection of the result the status is fixed by \<open>daysRemaining\<close>:
  at most 3 is critical, 4 to 7 is warning, 8 to 14 is caution, 15 and more is normal;
  the same for paper and for toner.
\<close>

theorem status_by_daysRemaining:
  "\<forall>p\<in>set (getSupplyProjections db now cutoff cid).
     (daysRemaining p \<le> 3 \<longrightarrow> status p = Critical)
     \<and> (4 \<le> daysRemaining p \<and> daysRemaining p \<le> 7 \<longrightarrow> status p = Warning)
     \<and> (8 \<le> daysRemaining p \<and> daysRemaining p \<le> 14 \<longrightarrow> status p = Caution)
     \<and> (15 \<le> daysRemaining p \<longrightarrow> status p = Normal)"
proof
  fix p assume "p \<in> set (getSupplyProjections db now cutoff cid)"
  from projection_origin [OF this] have "status p = statusOf (daysRemaining p)"
    using paperStep_Inr tonerStep_Inr by blast
  then show "(daysRemaining p \<le> 3 \<longrightarrow> status p = Critical)
     \<and> (4 \<le> daysRemaining p \<and> daysRemaining p \<le> 7 \<longrightarrow> status p = Warning)
     \<and> (8 \<le> daysRemaining p \<and> daysRemaining p \<le> 14 \<longrightarrow> status p = Caution)
     \<and> (15 \<le> daysRemaining p \<longrightarrow> status p = Normal)"
    by (simp add: statusOf_def)
qed

theorem status_by_daysRemaining_witness:
  "map (\<lambda>p. (ptype p, daysRemaining p, status p))
       (getSupplyProjections ex_db ex_now ex_cutoff None)
     = [(Paper, 3, Critical), (Toner, 3, Critical), (Paper, 4, Warning), (Toner, 4, Warning),
        (Paper, 7, Warning), (Toner, 7, Warning), (Paper, 8, Caution), (Toner, 8, Caution),
        (Paper, 14, Caution), (Toner, 14, Caution), (Paper, 15, Normal), (Toner, 15, Normal)]"
proof -
  let ?ps = "getSupplyProjections ex_db ex_now ex_cutoff None"
  let ?f = "\<lambda>d::int. if d \<le> 3 then Critical else if d \<le> 7 then Warning
                      else if d \<le> 14 then Caution else Normal"
  have "status p = ?f (daysRemaining p)" if "p \<in> set ?ps" for p
    using status_by_daysRemaining [of ex_db ex_now ex_cutoff None] that
    by (cases "daysRemaining p \<le> 3"; cases "daysRemaining p \<le> 7";
        cases "daysRemaining p \<le> 14") force+
  then have "map (\<lambda>p. (ptype p, daysRemaining p, status p)) ?ps
               = map (\<lambda>p. (ptype p, daysRemaining p, ?f (daysRemaining p))) ?ps"
    by simp
  also have "\<dots> = [(Paper, 3, Critical), (Toner, 3, Critical), (Paper, 4, Warning),
        (Toner, 4, Warning), (Paper, 7, Warning), (Toner, 7, Warning), (Paper, 8, Caution),
        (Toner, 8, Caution), (Paper, 14, Caution), (Toner, 14, Caution), (Paper, 15, Normal),
        (Toner, 15, Normal)]"
    by (simp add: ex_defs eval_defs)
  finally show ?thesis .
qed

subsection \<open>Monotonicity in the stock\<close>

text \<open>
  Claim C9. With the consumption series fixed, the \<open>daysRemaining\<close> of a paper type, and of
  a toner cartridge (whose pages are stock times pages per cartridge), does not grow when
  the stock shrinks: for stocks \<open>s1 \<le> s2\<close> the projection pushed for \<open>s1\<close> has at most the
  days of the one pushed for \<open>s2\<close>.
\<close>

theorem daysRemaining_monotone_in_stock:
  assumes "s1 \<le> s2"
  shows "(\<forall>p1 p2. paperStep now m (pt\<lparr>pt_stock := s1\<rparr>) = Inr [p1]
                 \<and> paperStep now m (pt\<lparr>pt_stock := s2\<rparr>) = Inr [p2]
            \<longrightarrow> daysRemaining p1 \<le> daysRemaining p2)
       \<and> (\<forall>p1 p2. tonerStep now m (toner\<lparr>tn_stock := s1\<rparr>) = Inr [p1]
                 \<and> tonerStep now m (toner\<lparr>tn_stock := s2\<rparr>) = Inr [p2]
            \<longrightarrow> daysRemaining p1 \<le> daysRemaining p2)"
proof (intro conjI allI impI)
  fix p1 p2
  assume a: "paperStep now m (pt\<lparr>pt_stock := s1\<rparr>) = Inr [p1]
           \<and> paperStep now m (pt\<lparr>pt_stock := s2\<rparr>) = Inr [p2]"
  let ?pd = "predictedOf (sort_key date (seriesOf m (pt_id pt)))"
  from a paperStep_Inr [of now m "pt\<lparr>pt_stock := s1\<rparr>" "[p1]" p1]
  have d1: "daysRemaining p1 = \<lfloor>of_int s1 / ?pd\<rfloor>" and pos: "0 < ?pd" by simp_all
  from a paperStep_Inr [of now m "pt\<lparr>pt_stock := s2\<rparr>" "[p2]" p2]
  have d2: "daysRemaining p2 = \<lfloor>of_int s2 / ?pd\<rfloor>" by simp
  from assms pos have "real_of_int s1 / ?pd \<le> real_of_int s2 / ?pd"
    by (simp add: divide_right_mono)
  then show "daysRemaining p1 \<le> daysRemaining p2"
    unfolding d1 d2 by (rule floor_mono)
next
  fix p1 p2
  assume a: "tonerStep now m (toner\<lparr>tn_stock := s1\<rparr>) = Inr [p1]
           \<and> tonerStep now m (toner\<lparr>tn_stock := s2\<rparr>) = Inr [p2]"
  let ?pd = "predictedOf (sort_key date (seriesOf m ''color''))"
  let ?e = "if tn_color toner = ''black'' then 2500
            else if tn_color toner = ''tricolor'' then 1500 else (1200::int)"
  from a tonerStep_Inr [of now m "toner\<lparr>tn_stock := s1\<rparr>" "[p1]" p1]
  have d1: "daysRemaining p1 = \<lfloor>of_int (s1 * ?e) / ?pd\<rfloor>" and pos: "0 < ?pd" by simp_all
  from a tonerStep_Inr [of now m "toner\<lparr>tn_stock := s2\<rparr>" "[p2]" p2]
  have d2: "daysRemaining p2 = \<lfloor>of_int (s2 * ?e) / ?pd\<rfloor>" by simp
  have "0 \<le> ?e" by simp
  with assms have "s1 * ?e \<le> s2 * ?e" by (rule mult_right_mono)
  then have "real_of_int (s1 * ?e) \<le> real_of_int (s2 * ?e)" by (simp only: of_int_le_iff)
  with pos have "real_of_int (s1 * ?e) / ?pd \<le> real_of_int (s2 * ?e) / ?pd"
    by (simp add: divide_right_mono)
  then show "daysRemaining p1 \<le> daysRemaining p2"
    unfolding d1 d2 by (rule floor_mono)
qed

theorem daysRemaining_monotone_in_stock_witness:
  "(50::int) \<le> 100
   \<and> (\<exists>p1 p2. paperStep ex_now ex_series (ex_paper\<lparr>pt_stock := 50\<rparr>) = Inr [p1]
        \<and> paperStep ex_now ex_series (ex_paper\<lparr>pt_stock := 100\<rparr>) = Inr [p2]
        \<and> daysRemaining p1 = 4 \<and> daysRemaining p2 = 9
        \<and> daysRemaining p1 \<le> daysRemaining p2)
   \<and> (\<exists>t1 t2. tonerStep ex_now ex_series (ex_toner\<lparr>tn_stock := 50\<rparr>) = Inr [t1]
        \<and> tonerStep ex_now ex_series (ex_toner\<lparr>tn_stock := 100\<rparr>) = Inr [t2]
        \<and> daysRemaining t1 = 1136 \<and> daysRemaining t2 = 2272
        \<and> daysRemaining t1 \<le> daysRemaining t2)"
proof -
  have le: "(50::int) \<le> 100" by simp
  obtain p1 where p1: "paperStep ex_now ex_series (ex_paper\<lparr>pt_stock := 50\<rparr>) = Inr [p1]"
    and d1: "daysRemaining p1 = 4"
    by (simp add: ex_series_def ex_paper_def ex_now_def eval_defs)
  obtain p2 where p2: "paperStep ex_now ex_series (ex_paper\<lparr>pt_stock := 100\<rparr>) = Inr [p2]"
    and d2: "daysRemaining p2 = 9"
    by (simp add: ex_series_def ex_paper_def ex_now_def eval_defs)
  obtain t1 where t1: "tonerStep ex_now ex_series (ex_toner\<lparr>tn_stock := 50\<rparr>) = Inr [t1]"
    and e1: "daysRemaining t1 = 1136"
    by (simp add: ex_series_def ex_toner_def ex_now_def eval_defs)
  obtain t2 where t2: "tonerStep ex_now ex_series (ex_toner\<lparr>tn_stock := 100\<rparr>) = Inr [t2]"
    and e2: "daysRemaining t2 = 2272"
    by (simp add: ex_series_def ex_toner_def ex_now_def eval_defs)
  from daysRemaining_monotone_in_stock [OF le, of ex_now ex_series ex_paper ex_toner] p1 p2 t1 t2
  have m: "daysRemaining p1 \<le> daysRemaining p2" "daysRemaining t1 \<le> daysRemaining t2"
    by blast+
  from le p1 p2 d1 d2 m(1) t1 t2 e1 e2 m(2) show ?thesis by blast
qed

subsection \<open>Predicted consumption and emission\<close>

lemma predictedOf_spec:
  "ser \<noteq> [] \<Longrightarrow>
     predictedOf ser = spec_predictedDaily (map pages ser) (calculateTrend (toDataPoints ser))"
  by (simp add: predictedOf_def predictive_is_spec)

lemma sort_key_Nil_iff: "sort_key f xs = [] \<longleftrightarrow> xs = []"
  by (metis length_sort length_0_conv)

text \<open>
  What the two loops do when nothing in the \<open>try\<close> block throws: for every paper type,
  and every cartridge, whose series is not empty, a projection for it is in the result if
  and only if \<open>predictedDaily > 0\<close>, where \<open>predictedDaily\<close> is
  \<open>max((recentAvg + trend) * 1.1, 0)\<close> and \<open>recentAvg\<close> the mean of the trailing
  \<open>min(7, n)\<close> daily totals.
\<close>

lemma emission_when_try_completes:
  assumes "projectionsTry db now cutoff cid = Inr raw"
  shows "(\<forall>pt\<in>set (getAllPaperTypes db cid). paperSeries db cutoff cid (pt_id pt) \<noteq> [] \<longrightarrow>
            ((\<exists>p\<in>set (getSupplyProjections db now cutoff cid).
                 ptype p = Paper \<and> resId p = pt_id pt)
             \<longleftrightarrow> 0 < spec_predictedDaily (map pages (paperSeries db cutoff cid (pt_id pt)))
                       (calculateTrend (toDataPoints (paperSeries db cutoff cid (pt_id pt))))))
       \<and> (\<forall>t\<in>set (getAllTonerInventory db cid). tonerSeries db cutoff cid \<noteq> [] \<longrightarrow>
            ((\<exists>p\<in>set (getSupplyProjections db now cutoff cid).
                 ptype p = Toner \<and> resId p = tn_id t)
             \<longleftrightarrow> 0 < spec_predictedDaily (map pages (tonerSeries db cutoff cid))
                       (calculateTrend (toDataPoints (tonerSeries db cutoff cid)))))"
proof -
  let ?pm = "paperMapOf db cutoff cid"
  let ?tm = "tonerConsumptionByColor Map.empty (recentJobsOf db cutoff cid)"
  let ?out = "getSupplyProjections db now cutoff cid"
  from projectionsTry_Inr [OF assms] obtain ps ts where
    r: "raw = ps @ ts"
    and ps: "pushAll (paperStep now ?pm) (getAllPaperTypes db cid) = Inr ps"
    and ts: "pushAll (tonerStep now ?tm) (getAllTonerInventory db cid) = Inr ts"
    by blast
  have out: "set ?out = set ps \<union> set ts"
    using assms r by (simp add: getSupplyProjections_set)
  have paper: "(\<exists>p\<in>set ?out. ptype p = Paper \<and> resId p = pt_id pt)
             \<longleftrightarrow> 0 < spec_predictedDaily (map pages (paperSeries db cutoff cid (pt_id pt)))
                       (calculateTrend (toDataPoints (paperSeries db cutoff cid (pt_id pt))))"
    if pt: "pt \<in> set (getAllPaperTypes db cid)"
      and ne: "paperSeries db cutoff cid (pt_id pt) \<noteq> []" for pt
  proof -
    let ?ser = "paperSeries db cutoff cid (pt_id pt)"
    have ser: "?ser = sort_key date (seriesOf ?pm (pt_id pt))"
      by (simp add: paperSeries_def)
    have pd: "predictedOf ?ser
                = spec_predictedDaily (map pages ?ser) (calculateTrend (toDataPoints ?ser))"
      using ne by (rule predictedOf_spec)
    have une: "seriesOf ?pm (pt_id pt) \<noteq> []"
      using ne ser by (simp add: sort_key_Nil_iff)
    show ?thesis
    proof
      assume "\<exists>p\<in>set ?out. ptype p = Paper \<and> resId p = pt_id pt"
      then obtain p where p: "p \<in> set ?out" "ptype p = Paper" "resId p = pt_id pt" by blast
      from projection_origin [OF p(1)] p(2)
      obtain pt' zs where z: "paperStep now ?pm pt' = Inr zs" "p \<in> set zs"
        using tonerStep_Inr by fastforce
      from paperStep_Inr [OF z] p(3)
      have "0 < predictedOf (sort_key date (seriesOf ?pm (pt_id pt)))" by simp
      then show "0 < spec_predictedDaily (map pages ?ser) (calculateTrend (toDataPoints ?ser))"
        using pd ser by simp
    next
      assume "0 < spec_predictedDaily (map pages ?ser) (calculateTrend (toDataPoints ?ser))"
      then have pos: "0 < predictedOf (sort_key date (seriesOf ?pm (pt_id pt)))"
        using pd ser by simp
      from pushAll_Inr_sub [OF ps pt] obtain zs where
        z: "paperStep now ?pm pt = Inr zs" "set zs \<subseteq> set ps" by blast
      from paperStep_emits [OF une pos z(1)] obtain p where zs: "zs = [p]" by blast
      then have "p \<in> set zs" by simp
      from paperStep_Inr [OF z(1) this] have "ptype p = Paper" "resId p = pt_id pt" by simp_all
      moreover have "p \<in> set ?out" using z(2) zs out by simp
      ultimately show "\<exists>p\<in>set ?out. ptype p = Paper \<and> resId p = pt_id pt" by blast
    qed
  qed
  have toner: "(\<exists>p\<in>set ?out. ptype p = Toner \<and> resId p = tn_id t)
             \<longleftrightarrow> 0 < spec_predictedDaily (map pages (tonerSeries db cutoff cid))
                       (calculateTrend (toDataPoints (tonerSeries db cutoff cid)))"
    if t: "t \<in> set (getAllTonerInventory db cid)"
      and ne: "tonerSeries db cutoff cid \<noteq> []" for t
  proof -
    let ?ser = "tonerSeries db cutoff cid"
    have ser: "?ser = sort_key date (seriesOf ?tm ''color'')"
      by (simp add: tonerSeries_def)
    have pd: "predictedOf ?ser
                = spec_predictedDaily (map pages ?ser) (calculateTrend (toDataPoints ?ser))"
      using ne by (rule predictedOf_spec)
    have une: "seriesOf ?tm ''color'' \<noteq> []"
      using ne ser by (simp add: sort_key_Nil_iff)
    show ?thesis
    proof
      assume "\<exists>p\<in>set ?out. ptype p = Toner \<and> resId p = tn_id t"
      then obtain p where p: "p \<in> set ?out" "ptype p = Toner" by blast
      from projection_origin [OF p(1)] p(2)
      obtain t' zs where z: "tonerStep now ?tm t' = Inr zs" "p \<in> set zs"
        using paperStep_Inr by fastforce
      from tonerStep_Inr [OF z]
      have "0 < predictedOf (sort_key date (seriesOf ?tm ''color''))" by simp
      then show "0 < spec_predictedDaily (map pages ?ser) (calculateTrend (toDataPoints ?ser))"
        using pd ser by simp
    next
      assume "0 < spec_predictedDaily (map pages ?ser) (calculateTrend (toDataPoints ?ser))"
      then have pos: "0 < predictedOf (sort_key date (seriesOf ?tm ''color''))"
        using pd ser by simp
      from pushAll_Inr_sub [OF ts t] obtain zs where
        z: "tonerStep now ?tm t = Inr zs" "set zs \<subseteq> set ts" by blast
      from tonerStep_emits [OF une pos z(1)] obtain p where zs: "zs = [p]" by blast
      then have "p \<in> set zs" by simp
      from tonerStep_Inr [OF z(1) this] have "ptype p = Toner" "resId p = tn_id t" by simp_all
      moreover have "p \<in> set ?out" using z(2) zs out by simp
      ultimately show "\<exists>p\<in>set ?out. ptype p = Toner \<and> resId p = tn_id t" by blast
    qed
  qed
  show ?thesis
  proof (intro conjI ballI impI)
    fix pt assume "pt \<in> set (getAllPaperTypes db cid)"
      and "paperSeries db cutoff cid (pt_id pt) \<noteq> []"
    then show "(\<exists>p\<in>set ?out. ptype p = Paper \<and> resId p = pt_id pt)
             \<longleftrightarrow> 0 < spec_predictedDaily (map pages (paperSeries db cutoff cid (pt_id pt)))
                       (calculateTrend (toDataPoints (paperSeries db cutoff cid (pt_id pt))))"
      by (rule paper)
  next
    fix t assume "t \<in> set (getAllTonerInventory db cid)"
      and "tonerSeries db cutoff cid \<noteq> []"
    then show "(\<exists>p\<in>set ?out. ptype p = Toner \<and> resId p = tn_id t)
             \<longleftrightarrow> 0 < spec_predictedDaily (map pages (tonerSeries db cutoff cid))
                       (calculateTrend (toDataPoints (tonerSeries db cutoff cid)))"
      by (rule toner)
  qed
qed

text \<open>
  Claim C1. For every resource with a non-empty consumption series, \<open>predictedDaily\<close> is
  \<open>max((recentAvg + trend) * 1.1, 0)\<close> with \<open>recentAvg\<close> the mean of the trailing
  \<open>min(7, n)\<close> daily totals, and a projection for the resource is emitted if and only if
  \<open>predictedDaily > 0\<close>. The code misses this where the \<open>try\<close> block throws. First input:
  one job of one page on a paper type of two thousand million sheets; the series has one
  entry, \<open>predictedDaily\<close> is positive, the depletion date is beyond the range of Date,
  \<open>toISOString\<close> throws and the result is empty. Second input: a paper type with a job of
  10 pages and 100 sheets, and a further job whose \<open>paperTypeId\<close> is \<open>constructor\<close>; the
  job loop throws and the result is empty, while without that job the paper type has its
  projection.
\<close>

theorem positive_prediction_not_emitted:
  "getAllPaperTypes huge_db None = [\<lparr>pt_id = ''p1'', pt_name = ''A4'', pt_stock = 2000000000\<rparr>]
   \<and> paperSeries huge_db ex_cutoff None ''p1'' = [\<lparr>date = 1759000000000, pages = 1\<rparr>]
   \<and> 0 < spec_predictedDaily (map pages (paperSeries huge_db ex_cutoff None ''p1''))
            (calculateTrend (toDataPoints (paperSeries huge_db ex_cutoff None ''p1'')))
   \<and> projectionsTry huge_db ex_now ex_cutoff None = Inl RangeError
   \<and> getSupplyProjections huge_db ex_now ex_cutoff None = []
   \<and> projectionsTry proto_db ex_now ex_cutoff None = Inl TypeError
   \<and> getSupplyProjections proto_db ex_now ex_cutoff None = []
   \<and> map resId (getSupplyProjections (proto_db\<lparr>getAllPrintJobs := \<lambda>c. [proto_job]\<rparr>)
                   ex_now ex_cutoff None) = [''p1'']"
  by (simp add: huge_db_def proto_db_def proto_job_def ex_now_def ex_cutoff_def series_defs
      eval_defs)

lemma emission_when_try_completes_example:
  "(\<exists>raw. projectionsTry ex_db ex_now ex_cutoff None = Inr raw)
   \<and> paperSeries ex_db ex_cutoff None ''p3'' = [\<lparr>date = 1759000000000, pages = 1000\<rparr>]
   \<and> spec_predictedDaily (map pages (paperSeries ex_db ex_cutoff None ''p3''))
        (calculateTrend (toDataPoints (paperSeries ex_db ex_cutoff None ''p3''))) = 1100
   \<and> (\<exists>p. p \<in> set (getSupplyProjections ex_db ex_now ex_cutoff None)
          \<and> ptype p = Paper \<and> resId p = ''p3'')
   \<and> paperSeries ex_db ex_cutoff None ''pz'' = [\<lparr>date = 1759000000000, pages = 0\<rparr>]
   \<and> spec_predictedDaily (map pages (paperSeries ex_db ex_cutoff None ''pz''))
        (calculateTrend (toDataPoints (paperSeries ex_db ex_cutoff None ''pz''))) = 0
   \<and> \<not> (\<exists>p. p \<in> set (getSupplyProjections ex_db ex_now ex_cutoff None)
          \<and> ptype p = Paper \<and> resId p = ''pz'')
   \<and> tonerSeries ex_db ex_cutoff None = [\<lparr>date = 1759000000000, pages = 1000\<rparr>]
   \<and> (\<exists>p. p \<in> set (getSupplyProjections ex_db ex_now ex_cutoff None)
          \<and> ptype p = Toner \<and> resId p = ''t3'')"
proof -
  obtain raw where raw: "projectionsTry ex_db ex_now ex_cutoff None = Inr raw"
    by (simp add: ex_defs eval_defs)
  note main = emission_when_try_completes [OF raw]
  have p3: "\<lparr>pt_id = ''p3'', pt_name = ''F'', pt_stock = 4000\<rparr> \<in> set (getAllPaperTypes ex_db None)"
    and pz: "\<lparr>pt_id = ''pz'', pt_name = ''Z'', pt_stock = 500\<rparr> \<in> set (getAllPaperTypes ex_db None)"
    and t3: "\<lparr>tn_id = ''t3'', tn_name = ''C2'', tn_color = ''cyan'', tn_stock = 3\<rparr>
               \<in> set (getAllTonerInventory ex_db None)"
    by (simp_all add: ex_defs)
  have s3: "paperSeries ex_db ex_cutoff None ''p3'' = [\<lparr>date = 1759000000000, pages = 1000\<rparr>]"
    and sz: "paperSeries ex_db ex_cutoff None ''pz'' = [\<lparr>date = 1759000000000, pages = 0\<rparr>]"
    and st: "tonerSeries ex_db ex_cutoff None = [\<lparr>date = 1759000000000, pages = 1000\<rparr>]"
    by (simp_all add: ex_defs series_defs)
  have v3: "spec_predictedDaily (map pages (paperSeries ex_db ex_cutoff None ''p3''))
        (calculateTrend (toDataPoints (paperSeries ex_db ex_cutoff None ''p3''))) = 1100"
    and vz: "spec_predictedDaily (map pages (paperSeries ex_db ex_cutoff None ''pz''))
        (calculateTrend (toDataPoints (paperSeries ex_db ex_cutoff None ''pz''))) = 0"
    and vt: "spec_predictedDaily (map pages (tonerSeries ex_db ex_cutoff None))
        (calculateTrend (toDataPoints (tonerSeries ex_db ex_cutoff None))) = 1100"
    unfolding s3 sz st by (simp_all add: series_defs)
  from main p3 s3 v3
  have e3: "\<exists>p. p \<in> set (getSupplyProjections ex_db ex_now ex_cutoff None)
          \<and> ptype p = Paper \<and> resId p = ''p3''"
    by fastforce
  from main pz sz vz
  have ez: "\<not> (\<exists>p. p \<in> set (getSupplyProjections ex_db ex_now ex_cutoff None)
          \<and> ptype p = Paper \<and> resId p = ''pz'')"
    by fastforce
  from main t3 st vt
  have et: "\<exists>p. p \<in> set (getSupplyProjections ex_db ex_now ex_cutoff None)
          \<and> ptype p = Toner \<and> resId p = ''t3''"
    by fastforce
  from raw s3 v3 e3 sz vz ez st et show ?thesis by blast
qed

subsection \<open>Toner projections and the colour series\<close>

lemma tonerConsumption_color_only:
  "tonerConsumptionByColor m (filter (\<lambda>job. colorMode job = ''color'') jobs)
     = tonerConsumptionByColor m jobs"
  by (induction jobs arbitrary: m) simp_all

lemma tonerMap_color_only:
  "tonerConsumptionByColor Map.empty (recentJobsOf (colorJobsOnly db) cutoff cid)
     = tonerConsumptionByColor Map.empty (recentJobsOf db cutoff cid)"
proof -
  have "filter (\<lambda>job. cutoff \<le> printedAt job)
          (filter (\<lambda>job. colorMode job = ''color'') (getAllPrintJobs db cid))
        = filter (\<lambda>job. colorMode job = ''color'')
            (filter (\<lambda>job. cutoff \<le> printedAt job) (getAllPrintJobs db cid))"
    by (simp add: conj_commute)
  then show ?thesis
    by (simp add: colorJobsOnly_def recentJobsOf_def tonerConsumption_color_only
        del: filter_filter)
qed

lemma tonerSeries_color_only:
  "tonerSeries (colorJobsOnly db) cutoff cid = tonerSeries db cutoff cid"
  by (simp add: tonerSeries_def tonerMap_color_only)

lemma toner_projection_fields:
  assumes "p \<in> set (getSupplyProjections db now cutoff cid)" and "ptype p = Toner"
  shows "dailyConsumption p = of_int (js_round (predictedOf (tonerSeries db cutoff cid) * 100)) / 100
       \<and> trend p = of_int (js_round (calculateTrend (toDataPoints (tonerSeries db cutoff cid)) * 100)) / 100
       \<and> confidence p = confidenceOf (map pages (tonerSeries db cutoff cid))
       \<and> dataPoints p = length (tonerSeries db cutoff cid)"
proof -
  from projection_origin [OF assms(1)] assms(2)
  obtain t zs where
    "tonerStep now (tonerConsumptionByColor Map.empty (recentJobsOf db cutoff cid)) t = Inr zs"
    "p \<in> set zs"
    using paperStep_Inr by fastforce
  from tonerStep_Inr [OF this] show ?thesis
    by (simp add: tonerSeries_def)
qed

text \<open>
  The series behind every toner projection is the one series of the jobs whose
  \<open>colorMode\<close> is \<open>color\<close>: dropping all other jobs from the database changes neither the
  series nor what the loop over the toner inventory pushes. Every toner projection of a
  result takes \<open>dailyConsumption\<close>, \<open>trend\<close>, \<open>confidence\<close> and \<open>dataPoints\<close> from that
  series, so any two toner projections of one result agree on these four fields.
\<close>

lemma toner_projections_share_color_series:
  "pushAll (tonerStep now
             (tonerConsumptionByColor Map.empty (recentJobsOf (colorJobsOnly db) cutoff cid)))
       (getAllTonerInventory db cid)
     = pushAll (tonerStep now
                 (tonerConsumptionByColor Map.empty (recentJobsOf db cutoff cid)))
         (getAllTonerInventory db cid)
   \<and> tonerSeries (colorJobsOnly db) cutoff cid = tonerSeries db cutoff cid
   \<and> (\<forall>p\<in>set (getSupplyProjections db now cutoff cid). ptype p = Toner \<longrightarrow>
        dailyConsumption p
          = of_int (js_round (predictedOf (tonerSeries db cutoff cid) * 100)) / 100
        \<and> trend p
          = of_int (js_round (calculateTrend (toDataPoints (tonerSeries db cutoff cid)) * 100)) / 100
        \<and> confidence p = confidenceOf (map pages (tonerSeries db cutoff cid))
        \<and> dataPoints p = length (tonerSeries db cutoff cid))
   \<and> (\<forall>p\<in>set (getSupplyProjections db now cutoff cid).
       \<forall>q\<in>set (getSupplyProjections db now cutoff cid).
         ptype p = Toner \<and> ptype q = Toner \<longrightarrow>
           dailyConsumption p = dailyConsumption q \<and> trend p = trend q
           \<and> confidence p = confidence q \<and> dataPoints p = dataPoints q)"
proof (intro conjI ballI impI)
  show "pushAll (tonerStep now
             (tonerConsumptionByColor Map.empty (recentJobsOf (colorJobsOnly db) cutoff cid)))
       (getAllTonerInventory db cid)
     = pushAll (tonerStep now
                 (tonerConsumptionByColor Map.empty (recentJobsOf db cutoff cid)))
         (getAllTonerInventory db cid)"
    by (simp only: tonerMap_color_only)
next
  show "tonerSeries (colorJobsOnly db) cutoff cid = tonerSeries db cutoff cid"
    by (rule tonerSeries_color_only)
next
  fix p assume "p \<in> set (getSupplyProjections db now cutoff cid)" "ptype p = Toner"
  from toner_projection_fields [OF this]
  show "dailyConsumption p
          = of_int (js_round (predictedOf (tonerSeries db cutoff cid) * 100)) / 100"
    and "trend p
          = of_int (js_round (calculateTrend (toDataPoints (tonerSeries db cutoff cid)) * 100)) / 100"
    and "confidence p = confidenceOf (map pages (tonerSeries db cutoff cid))"
    and "dataPoints p = length (tonerSeries db cutoff cid)"
    by simp_all
next
  fix p q
  assume p: "p \<in> set (getSupplyProjections db now cutoff cid)"
    and q: "q \<in> set (getSupplyProjections db now cutoff cid)"
    and t: "ptype p = Toner \<and> ptype q = Toner"
  from toner_projection_fields [OF p] toner_projection_fields [OF q] t
  show "dailyConsumption p = dailyConsumption q" "trend p = trend q"
    "confidence p = confidence q" "dataPoints p = dataPoints q"
    by simp_all
qed

lemma toner_projections_share_color_series_example:
  "map (\<lambda>p. (resId p, dailyConsumption p, trend p, confidence p, dataPoints p))
     (filter (\<lambda>p. ptype p = Toner) (getSupplyProjections ex_db ex_now ex_cutoff None))
   = [(''t3'', 1100, 0, High, 1), (''t4'', 1100, 0, High, 1), (''t7'', 1100, 0, High, 1),
      (''t8'', 1100, 0, High, 1), (''t14'', 1100, 0, High, 1), (''t15'', 1100, 0, High, 1)]"
proof -
  let ?ps = "getSupplyProjections ex_db ex_now ex_cutoff None"
  let ?ser = "tonerSeries ex_db ex_cutoff None"
  have st: "?ser = [\<lparr>date = 1759000000000, pages = 1000\<rparr>]"
    by (simp add: ex_defs series_defs)
  have "dailyConsumption p = of_int (js_round (predictedOf ?ser * 100)) / 100
        \<and> trend p = of_int (js_round (calculateTrend (toDataPoints ?ser) * 100)) / 100
        \<and> confidence p = confidenceOf (map pages ?ser)
        \<and> dataPoints p = length ?ser"
    if "p \<in> set (filter (\<lambda>p. ptype p = Toner) ?ps)" for p
    using toner_projections_share_color_series [of ex_now ex_db ex_cutoff None] that by simp
  then have "map (\<lambda>p. (resId p, dailyConsumption p, trend p, confidence p, dataPoints p))
               (filter (\<lambda>p. ptype p = Toner) ?ps)
             = map (\<lambda>p. (resId p, of_int (js_round (predictedOf ?ser * 100)) / 100,
                      of_int (js_round (calculateTrend (toDataPoints ?ser) * 100)) / 100,
                      confidenceOf (map pages ?ser), length ?ser))
               (filter (\<lambda>p. ptype p = Toner) ?ps)"
    by simp
  also have "\<dots> = [(''t3'', 1100, 0, High, 1), (''t4'', 1100, 0, High, 1),
      (''t7'', 1100, 0, High, 1), (''t8'', 1100, 0, High, 1), (''t14'', 1100, 0, High, 1),
      (''t15'', 1100, 0, High, 1)]"
    unfolding st by (simp add: ex_defs eval_defs predictedOf_def toDataPoints_def)
  finally show ?thesis .
qed

text \<open>
  Claim C10. Black-and-white jobs never influence a toner projection: the series of every
  cartridge is the one series of the colour jobs, and all toner projections of a result
  share \<open>dailyConsumption\<close>, \<open>trend\<close>, \<open>confidence\<close> and \<open>dataPoints\<close>. The code misses the
  first part where the paper loop throws: with a colour job of 100 pages, a cartridge of
  black toner with a stock of 2, and a black-and-white job of one page on a paper type of
  two thousand million sheets, the toner series is the same with and without the
  black-and-white job, yet the result is empty with it and holds the projection of the
  cartridge (45 days) without it.
\<close>

theorem bw_job_empties_toner_projections:
  "map colorMode (getAllPrintJobs bw_db None) = [''color'', ''bw'']
   \<and> map colorMode (getAllPrintJobs (colorJobsOnly bw_db) None) = [''color'']
   \<and> tonerSeries bw_db ex_cutoff None = [\<lparr>date = 1759000000000, pages = 100\<rparr>]
   \<and> tonerSeries (colorJobsOnly bw_db) ex_cutoff None = [\<lparr>date = 1759000000000, pages = 100\<rparr>]
   \<and> getSupplyProjections bw_db ex_now ex_cutoff None = []
   \<and> map ptype (getSupplyProjections (colorJobsOnly bw_db) ex_now ex_cutoff None) = [Toner]
   \<and> map resId (getSupplyProjections (colorJobsOnly bw_db) ex_now ex_cutoff None) = [''t1'']
   \<and> map daysRemaining (getSupplyProjections (colorJobsOnly bw_db) ex_now ex_cutoff None) = [45]"
  by (simp add: bw_db_def colorJobsOnly_def ex_now_def ex_cutoff_def series_defs eval_defs)

subsection \<open>Alert deduplication\<close>

lemma find_getAllAlerts_None:
  "find P (getAllAlerts st compId) = None
     \<longleftrightarrow> \<not> (\<exists>a\<in>set (alerts st). companyId a = compId \<and> P a)"
  by (auto simp: getAllAlerts_def find_None_iff)

lemma find_getAllAlerts_Some:
  assumes "find P (getAllAlerts st compId) = Some a"
  shows "a \<in> set (alerts st) \<and> companyId a = compId \<and> P a"
proof -
  from assms obtain i where "i < length (getAllAlerts st compId)"
    "P (getAllAlerts st compId ! i)" "a = getAllAlerts st compId ! i"
    by (auto simp: find_Some_iff)
  then have "a \<in> set (getAllAlerts st compId)" "P a" by auto
  then show ?thesis by (simp add: getAllAlerts_def)
qed

lemma statusAlertStep_unfold:
  assumes "fst (statusAlert p) \<noteq> []"
  shows "statusAlertStep f compId st p =
     (case find (similarTo (fst (statusAlert p)) p) (getAllAlerts st compId) of
        None \<Rightarrow> createAlert f st (newStatusAlert compId p)
      | Some old \<Rightarrow>
          if 2 \<le> \<bar>daysRemaining p - parsedDays (message old)\<bar> then
            (case markAlertRead f st (alertId old) of
               Inl err \<Rightarrow> Inl err
             | Inr st' \<Rightarrow> createAlert f st' (newStatusAlert compId p))
          else Inr st)"
  using assms
  by (cases "statusAlert p")
     (simp add: statusAlertStep_def newStatusAlert_def Let_def split: option.split sum.split)

text \<open>
  Claim C2, amended. For a projection whose \<open>daysRemaining\<close> selects an alert type: when the
  company has no unread alert of that type for the same resource id and resource type,
  the step is one \<open>createAlert\<close>; when it has one, there is such an alert \<open>old\<close> (the one
  \<open>find\<close> returns) whose message decides: if the new \<open>daysRemaining\<close> and the day count
  parsed from the message differ by 2 or more, \<open>old\<close> is marked read and a new alert is
  created; if they differ by less, the store is not written. The lookup is by type, so a
  projection that moved to another status band meets no alert of its new type.
\<close>

theorem status_alert_dedup:
  assumes "fst (statusAlert p) \<noteq> []"
  shows "(\<not> (\<exists>a\<in>set (alerts st). companyId a = compId \<and> similarTo (fst (statusAlert p)) p a)
            \<longrightarrow> statusAlertStep f compId st p = createAlert f st (newStatusAlert compId p))
       \<and> ((\<exists>a\<in>set (alerts st). companyId a = compId \<and> similarTo (fst (statusAlert p)) p a)
            \<longrightarrow> (\<exists>old\<in>set (alerts st).
                   companyId old = compId \<and> similarTo (fst (statusAlert p)) p old
                   \<and> (2 \<le> \<bar>daysRemaining p - parsedDays (message old)\<bar> \<longrightarrow>
                        statusAlertStep f compId st p =
                          (case markAlertRead f st (alertId old) of
                             Inl err \<Rightarrow> Inl err
                           | Inr st' \<Rightarrow> createAlert f st' (newStatusAlert compId p)))
                   \<and> (\<bar>daysRemaining p - parsedDays (message old)\<bar> < 2 \<longrightarrow>
                        statusAlertStep f compId st p = Inr st)))"
proof (intro conjI impI)
  assume "\<not> (\<exists>a\<in>set (alerts st). companyId a = compId \<and> similarTo (fst (statusAlert p)) p a)"
  then have "find (similarTo (fst (statusAlert p)) p) (getAllAlerts st compId) = None"
    by (simp add: find_getAllAlerts_None)
  then show "statusAlertStep f compId st p = createAlert f st (newStatusAlert compId p)"
    by (simp add: statusAlertStep_unfold [OF assms])
next
  assume "\<exists>a\<in>set (alerts st). companyId a = compId \<and> similarTo (fst (statusAlert p)) p a"
  then have "find (similarTo (fst (statusAlert p)) p) (getAllAlerts st compId) \<noteq> None"
    by (simp add: find_getAllAlerts_None)
  then obtain old where
    old: "find (similarTo (fst (statusAlert p)) p) (getAllAlerts st compId) = Some old"
    by blast
  from find_getAllAlerts_Some [OF old]
  have m: "old \<in> set (alerts st)" "companyId old = compId"
    "similarTo (fst (statusAlert p)) p old"
    by simp_all
  have a: "2 \<le> \<bar>daysRemaining p - parsedDays (message old)\<bar> \<longrightarrow>
             statusAlertStep f compId st p =
               (case markAlertRead f st (alertId old) of
                  Inl err \<Rightarrow> Inl err
                | Inr st' \<Rightarrow> createAlert f st' (newStatusAlert compId p))"
    by (simp add: statusAlertStep_unfold [OF assms] old)
  have b: "\<bar>daysRemaining p - parsedDays (message old)\<bar> < 2 \<longrightarrow>
             statusAlertStep f compId st p = Inr st"
    by (simp add: statusAlertStep_unfold [OF assms] old)
  from m a b show "\<exists>old\<in>set (alerts st).
                   companyId old = compId \<and> similarTo (fst (statusAlert p)) p old
                   \<and> (2 \<le> \<bar>daysRemaining p - parsedDays (message old)\<bar> \<longrightarrow>
                        statusAlertStep f compId st p =
                          (case markAlertRead f st (alertId old) of
                             Inl err \<Rightarrow> Inl err
                           | Inr st' \<Rightarrow> createAlert f st' (newStatusAlert compId p)))
                   \<and> (\<bar>daysRemaining p - parsedDays (message old)\<bar> < 2 \<longrightarrow>
                        statusAlertStep f compId st p = Inr st)"
    by blast
qed

text \<open>
  Claim C7, amended. When the message of the alert that \<open>find\<close> returns holds no day
  count, the parsed value is 0, and the update (mark read, create) happens exactly when
  the new \<open>daysRemaining\<close> is 2 or more in absolute value; for -1, 0 and 1 the store is not
  written.
\<close>

theorem unparsable_message_counts_as_zero:
  assumes "fst (statusAlert p) \<noteq> []"
    and "find (similarTo (fst (statusAlert p)) p) (getAllAlerts st compId) = Some old"
    and "matchDays (message old) = None"
  shows "parsedDays (message old) = 0
       \<and> (2 \<le> \<bar>daysRemaining p\<bar> \<longrightarrow>
            statusAlertStep f compId st p =
              (case markAlertRead f st (alertId old) of
                 Inl err \<Rightarrow> Inl err
               | Inr st' \<Rightarrow> createAlert f st' (newStatusAlert compId p)))
       \<and> (\<bar>daysRemaining p\<bar> < 2 \<longrightarrow> statusAlertStep f compId st p = Inr st)"
proof -
  have z: "parsedDays (message old) = 0"
    using assms(3) by (simp add: parsedDays_def parseInt_def digitVal_def)
  show ?thesis
    by (simp add: z statusAlertStep_unfold [OF assms(1)] assms(2))
qed

text \<open>
  Claim C6, amended. The second loop runs over the projections with confidence low and
  \<open>daysRemaining\<close> at most 30. For each, when the company has no unread alert of type
  \<open>projection_unreliable\<close> with the projection's resource id (the resource type is not
  compared), one alert of severity \<open>info\<close> is created; when it has one, the store is not
  written: this alert is never marked read and recreated.
\<close>

theorem unreliable_alert_create_only:
  "(\<not> (\<exists>a\<in>set (alerts st). companyId a = compId \<and> unreliableFor p a)
      \<longrightarrow> unreliableStep f compId st p = createAlert f st (unreliableAlert compId p))
   \<and> ((\<exists>a\<in>set (alerts st). companyId a = compId \<and> unreliableFor p a)
      \<longrightarrow> unreliableStep f compId st p = Inr st)
   \<and> alertType (unreliableAlert compId p) = ''projection_unreliable''
   \<and> severity (unreliableAlert compId p) = ''info''
   \<and> set (lowConfidenceProjections ps) = {q \<in> set ps. confidence q = Low \<and> daysRemaining q \<le> 30}"
proof (intro conjI impI)
  assume "\<not> (\<exists>a\<in>set (alerts st). companyId a = compId \<and> unreliableFor p a)"
  then have "find (unreliableFor p) (getAllAlerts st compId) = None"
    by (simp add: find_getAllAlerts_None)
  then show "unreliableStep f compId st p = createAlert f st (unreliableAlert compId p)"
    by (simp add: unreliableStep_def)
next
  assume "\<exists>a\<in>set (alerts st). companyId a = compId \<and> unreliableFor p a"
  then have "find (unreliableFor p) (getAllAlerts st compId) \<noteq> None"
    by (simp add: find_getAllAlerts_None)
  then show "unreliableStep f compId st p = Inr st"
    by (auto simp: unreliableStep_def)
qed (simp_all add: unreliableAlert_def lowConfidenceProjections_def)

lemma forEach_append:
  "forEach body st (xs @ ys) =
     (case forEach body st xs of Inl err \<Rightarrow> Inl err | Inr st' \<Rightarrow> forEach body st' ys)"
  by (induction xs arbitrary: st) (simp_all split: sum.split)

text \<open>
  Claim C5, amended. In a run over all companies, when the companies before \<open>failing\<close>
  are processed without a throw and a write throws while \<open>failing\<close> is processed, the one
  \<open>catch\<close> around the run logs the error and \<open>generateSupplyAlerts\<close> returns with the
  store as the throw left it: the companies after \<open>failing\<close> are not processed, whatever
  they are.
\<close>

theorem write_failure_aborts_run:
  assumes "\<not> truthy cid"
    and "getAllCompanies db = processed @ failing # remaining"
    and "forEach (companyStep f db now cutoff cid (getSupplyProjections db now cutoff cid))
           st processed = Inr st1"
    and "companyStep f db now cutoff cid (getSupplyProjections db now cutoff cid) st1 failing
           = Inl (err, st2)"
  shows "generateSupplyAlerts f db now cutoff cid st = (st2, [err])"
  using assms
  by (simp add: generateSupplyAlerts_def Let_def forEach_append)

subsection \<open>Alert deduplication on concrete stores\<close>

theorem status_alert_dedup_witness:
  "fst (statusAlert (ex_projection 115 High)) = ''paper_caution''
   \<and> statusAlertStep noFaults ''acme'' emptyStore (ex_projection 115 High)
        = createAlert noFaults emptyStore (newStatusAlert ''acme'' (ex_projection 115 High))
   \<and> createAlert noFaults emptyStore (newStatusAlert ''acme'' (ex_projection 115 High))
        = Inr (storeOf ex_alert10)
   \<and> parsedDays (message ex_alert10) = 10
   \<and> daysRemaining (ex_projection 100 High) = 9
   \<and> statusAlertStep noFaults ''acme'' (storeOf ex_alert10) (ex_projection 100 High)
        = Inr (storeOf ex_alert10)
   \<and> daysRemaining (ex_projection 135 High) = 12
   \<and> statusAlertStep noFaults ''acme'' (storeOf ex_alert10) (ex_projection 135 High)
        = createAlert noFaults (storeOf (ex_alert10\<lparr>read := True\<rparr>))
            (newStatusAlert ''acme'' (ex_projection 135 High))"
proof -
  have t10: "fst (statusAlert (ex_projection 115 High)) = ''paper_caution''"
    and t9: "fst (statusAlert (ex_projection 100 High)) = ''paper_caution''"
    and t12: "fst (statusAlert (ex_projection 135 High)) = ''paper_caution''"
    by (simp_all add: statusAlert_def ex_projection_def Let_def)
  have ne10: "fst (statusAlert (ex_projection 115 High)) \<noteq> []"
    and ne9: "fst (statusAlert (ex_projection 100 High)) \<noteq> []"
    and ne12: "fst (statusAlert (ex_projection 135 High)) \<noteq> []"
    by (simp_all add: t10 t9 t12)
  have none: "\<not> (\<exists>a\<in>set (alerts emptyStore). companyId a = ''acme''
                  \<and> similarTo (fst (statusAlert (ex_projection 115 High)))
                       (ex_projection 115 High) a)"
    by (simp add: emptyStore_def)
  have c1: "statusAlertStep noFaults ''acme'' emptyStore (ex_projection 115 High)
        = createAlert noFaults emptyStore (newStatusAlert ''acme'' (ex_projection 115 High))"
    using status_alert_dedup [OF ne10, of emptyStore "''acme''" noFaults] none by blast
  have c2: "createAlert noFaults emptyStore (newStatusAlert ''acme'' (ex_projection 115 High))
        = Inr (storeOf ex_alert10)"
    by (simp add: alert_defs ex_alert_defs text_defs Let_def)
  have p10: "parsedDays (message ex_alert10) = 10"
    by (simp add: ex_alert_defs text_defs parse_defs)
  have d9: "daysRemaining (ex_projection 100 High) = 9"
    and d12: "daysRemaining (ex_projection 135 High) = 12"
    by (simp_all add: ex_projection_def)
  have only: "alerts (storeOf ex_alert10) = [ex_alert10]"
    by (simp add: storeOf_def)
  have sim9: "companyId ex_alert10 = ''acme''
              \<and> similarTo (fst (statusAlert (ex_projection 100 High)))
                   (ex_projection 100 High) ex_alert10"
    and sim12: "companyId ex_alert10 = ''acme''
              \<and> similarTo (fst (statusAlert (ex_projection 135 High)))
                   (ex_projection 135 High) ex_alert10"
    unfolding t9 t12
    by (simp_all add: similarTo_def ex_alert10_def ex_projection_def typeName_def)
  have c3: "statusAlertStep noFaults ''acme'' (storeOf ex_alert10) (ex_projection 100 High)
        = Inr (storeOf ex_alert10)"
    using status_alert_dedup [OF ne9, of "storeOf ex_alert10" "''acme''" noFaults]
      sim9 only p10 d9
    by simp
  have mark: "markAlertRead noFaults (storeOf ex_alert10) (alertId ex_alert10)
                = Inr (storeOf (ex_alert10\<lparr>read := True\<rparr>))"
    by (simp add: markAlertRead_def noFaults_def storeOf_def)
  have c4: "statusAlertStep noFaults ''acme'' (storeOf ex_alert10) (ex_projection 135 High)
        = createAlert noFaults (storeOf (ex_alert10\<lparr>read := True\<rparr>))
            (newStatusAlert ''acme'' (ex_projection 135 High))"
    using status_alert_dedup [OF ne12, of "storeOf ex_alert10" "''acme''" noFaults]
      sim12 only p10 d12 mark
    by simp
  from t10 c1 c2 p10 d9 c3 d12 c4 show ?thesis by blast
qed

text \<open>
  The example of the specification at 7 days fails: the alert created at 10 days is of
  type \<open>paper_caution\<close>, a projection at 7 days selects \<open>paper_warning\<close>, no alert of that
  type is found, and a second alert is created while the first stays unread.
\<close>

theorem dedup_example_at_7_counterexample:
  "statusAlertStep noFaults ''acme'' emptyStore (ex_projection 115 High) = Inr (storeOf ex_alert10)
   \<and> daysRemaining (ex_projection 115 High) = 10
   \<and> daysRemaining (ex_projection 80 High) = 7
   \<and> \<not> isl (statusAlertStep noFaults ''acme'' (storeOf ex_alert10) (ex_projection 80 High))
   \<and> map alertType
        (alerts (projr (statusAlertStep noFaults ''acme'' (storeOf ex_alert10)
                          (ex_projection 80 High))))
        = [''paper_caution'', ''paper_warning'']
   \<and> map read
        (alerts (projr (statusAlertStep noFaults ''acme'' (storeOf ex_alert10)
                          (ex_projection 80 High))))
        = [False, False]"
  by (simp add: alert_defs ex_alert_defs text_defs Let_def)

theorem unparsable_message_counts_as_zero_witness:
  "find (similarTo (fst (statusAlert (ex_projection 5 High))) (ex_projection 5 High))
        (getAllAlerts (storeOf ex_alert0) ''acme'') = Some ex_alert0
   \<and> matchDays (message ex_alert0) = None
   \<and> parsedDays (message ex_alert0) = 0
   \<and> daysRemaining (ex_projection 5 High) = 0
   \<and> statusAlertStep noFaults ''acme'' (storeOf ex_alert0) (ex_projection 5 High)
        = Inr (storeOf ex_alert0)
   \<and> daysRemaining (ex_projection (-30) High) = - 3
   \<and> statusAlertStep noFaults ''acme'' (storeOf ex_alert0) (ex_projection (-30) High)
        = createAlert noFaults (storeOf (ex_alert0\<lparr>read := True\<rparr>))
            (newStatusAlert ''acme'' (ex_projection (-30) High))"
proof -
  have t0: "fst (statusAlert (ex_projection 5 High)) = ''paper_depleted''"
    and t3: "fst (statusAlert (ex_projection (-30) High)) = ''paper_depleted''"
    by (simp_all add: statusAlert_def ex_projection_def Let_def)
  have ne0: "fst (statusAlert (ex_projection 5 High)) \<noteq> []"
    and ne3: "fst (statusAlert (ex_projection (-30) High)) \<noteq> []"
    by (simp_all add: t0 t3)
  have f0: "find (similarTo (fst (statusAlert (ex_projection 5 High))) (ex_projection 5 High))
        (getAllAlerts (storeOf ex_alert0) ''acme'') = Some ex_alert0"
    and f3: "find (similarTo (fst (statusAlert (ex_projection (-30) High)))
               (ex_projection (-30) High))
        (getAllAlerts (storeOf ex_alert0) ''acme'') = Some ex_alert0"
    unfolding t0 t3
    by (simp_all add: similarTo_def getAllAlerts_def storeOf_def ex_alert0_def
        ex_projection_def typeName_def)
  have m: "matchDays (message ex_alert0) = None"
    by (simp add: ex_alert_defs text_defs parse_defs)
  have d0: "daysRemaining (ex_projection 5 High) = 0"
    and d3: "daysRemaining (ex_projection (-30) High) = - 3"
    by (simp_all add: ex_projection_def)
  have mark: "markAlertRead noFaults (storeOf ex_alert0) (alertId ex_alert0)
                = Inr (storeOf (ex_alert0\<lparr>read := True\<rparr>))"
    by (simp add: markAlertRead_def noFaults_def storeOf_def)
  from unparsable_message_counts_as_zero [OF ne0 f0 m, of noFaults] d0
  have a: "parsedDays (message ex_alert0) = 0"
    "statusAlertStep noFaults ''acme'' (storeOf ex_alert0) (ex_projection 5 High)
        = Inr (storeOf ex_alert0)"
    by simp_all
  from unparsable_message_counts_as_zero [OF ne3 f3 m, of noFaults] d3 mark
  have b: "statusAlertStep noFaults ''acme'' (storeOf ex_alert0) (ex_projection (-30) High)
        = createAlert noFaults (storeOf (ex_alert0\<lparr>read := True\<rparr>))
            (newStatusAlert ''acme'' (ex_projection (-30) High))"
    by simp
  from f0 m a d0 d3 b show ?thesis by blast
qed

text \<open>
  An unparsable message does not always trigger the update: the alert of a depleted
  paper type holds no day count, and the same projection at 0 days leaves the store as
  it is.
\<close>

theorem unparsable_always_updates_counterexample:
  "statusAlertStep noFaults ''acme'' emptyStore (ex_projection 5 High) = Inr (storeOf ex_alert0)
   \<and> matchDays (message ex_alert0) = None
   \<and> daysRemaining (ex_projection 5 High) = 0
   \<and> statusAlertStep noFaults ''acme'' (storeOf ex_alert0) (ex_projection 5 High)
        = Inr (storeOf ex_alert0)"
  by (simp add: alert_defs ex_alert_defs text_defs parse_defs Let_def)

theorem unreliable_alert_create_only_witness:
  "unreliableStep noFaults ''acme'' emptyStore (ex_projection 115 Low)
     = createAlert noFaults emptyStore (unreliableAlert ''acme'' (ex_projection 115 Low))
   \<and> createAlert noFaults emptyStore (unreliableAlert ''acme'' (ex_projection 115 Low))
     = Inr (storeOf ex_alertU)
   \<and> unreliableStep noFaults ''acme'' (storeOf ex_alertU) (ex_projection 225 Low)
     = Inr (storeOf ex_alertU)
   \<and> lowConfidenceProjections
        [ex_projection 225 Low, ex_projection 225 High, ex_projection 400 Low]
     = [ex_projection 225 Low]"
proof -
  note main = unreliable_alert_create_only
  have none: "\<not> (\<exists>a\<in>set (alerts emptyStore). companyId a = ''acme''
                  \<and> unreliableFor (ex_projection 115 Low) a)"
    by (simp add: emptyStore_def)
  have c1: "unreliableStep noFaults ''acme'' emptyStore (ex_projection 115 Low)
     = createAlert noFaults emptyStore (unreliableAlert ''acme'' (ex_projection 115 Low))"
    using main [of emptyStore "''acme''" "ex_projection 115 Low" noFaults "[]"] none by blast
  have c2: "createAlert noFaults emptyStore (unreliableAlert ''acme'' (ex_projection 115 Low))
     = Inr (storeOf ex_alertU)"
    by (simp add: alert_defs ex_alert_defs text_defs Let_def)
  have some: "\<exists>a\<in>set (alerts (storeOf ex_alertU)). companyId a = ''acme''
                  \<and> unreliableFor (ex_projection 225 Low) a"
    by (simp add: storeOf_def unreliableFor_def ex_alertU_def ex_projection_def)
  have c3: "unreliableStep noFaults ''acme'' (storeOf ex_alertU) (ex_projection 225 Low)
     = Inr (storeOf ex_alertU)"
    using main [of "storeOf ex_alertU" "''acme''" "ex_projection 225 Low" noFaults "[]"] some
    by blast
  have c4: "lowConfidenceProjections
        [ex_projection 225 Low, ex_projection 225 High, ex_projection 400 Low]
     = [ex_projection 225 Low]"
    by (simp add: lowConfidenceProjections_def ex_projection_def)
  from c1 c2 c3 c4 show ?thesis by blast
qed

text \<open>
  The second loop has no update branch: with an unread \<open>projection_unreliable\<close> alert in
  the store, whose message parses to 0 days, a low-confidence projection at 20 days
  writes nothing.
\<close>

theorem unreliable_same_dedup_counterexample:
  "unreliableStep noFaults ''acme'' emptyStore (ex_projection 115 Low) = Inr (storeOf ex_alertU)
   \<and> confidence (ex_projection 225 Low) = Low
   \<and> daysRemaining (ex_projection 225 Low) = 20
   \<and> parsedDays (message ex_alertU) = 0
   \<and> unreliableStep noFaults ''acme'' (storeOf ex_alertU) (ex_projection 225 Low)
        = Inr (storeOf ex_alertU)"
  by (simp add: alert_defs ex_alert_defs text_defs parse_defs Let_def)

theorem write_failure_aborts_run_witness:
  "\<not> truthy None
   \<and> getAllCompanies three_db = [''b''] @ ''a'' # [''c'']
   \<and> forEach (companyStep rejectA three_db ex_now ex_cutoff None
                 (getSupplyProjections three_db ex_now ex_cutoff None))
         emptyStore [''b'']
       = Inr (storeOf ex_alertB)
   \<and> companyStep rejectA three_db ex_now ex_cutoff None
         (getSupplyProjections three_db ex_now ex_cutoff None) (storeOf ex_alertB) ''a''
       = Inl (StoreError, storeOf ex_alertB)
   \<and> generateSupplyAlerts rejectA three_db ex_now ex_cutoff None emptyStore
       = (storeOf ex_alertB, [StoreError])"
proof -
  have h1: "\<not> truthy None"
    by (simp add: truthy_def)
  have h2: "getAllCompanies three_db = [''b''] @ ''a'' # [''c'']"
    by (simp add: three_db_def)
  have h3: "forEach (companyStep rejectA three_db ex_now ex_cutoff None
                 (getSupplyProjections three_db ex_now ex_cutoff None))
         emptyStore [''b'']
       = Inr (storeOf ex_alertB)"
    by (simp add: run_defs alert_defs eval_defs text_defs ex_now_def Let_def)
  have h4: "companyStep rejectA three_db ex_now ex_cutoff None
         (getSupplyProjections three_db ex_now ex_cutoff None) (storeOf ex_alertB) ''a''
       = Inl (StoreError, storeOf ex_alertB)"
    by (simp add: run_defs alert_defs eval_defs text_defs ex_now_def Let_def)
  from write_failure_aborts_run [OF h1 h2 h3 h4] h1 h2 h3 h4 show ?thesis
    by blast
qed

text \<open>
  A throwing \<open>createAlert\<close> for the first company ends the run: nothing is created for
  the second company, which gets its alert when it is processed alone.
\<close>

theorem failure_isolated_counterexample:
  "generateSupplyAlerts rejectA two_db ex_now ex_cutoff None emptyStore
     = (emptyStore, [StoreError])
   \<and> map companyId
       (alerts (fst (generateSupplyAlerts rejectA (two_db\<lparr>getAllCompanies := [''b'']\<rparr>)
                       ex_now ex_cutoff None emptyStore)))
     = [''b'']"
  by (simp add: run_defs alert_defs eval_defs text_defs ex_now_def Let_def)

end
